theory Spec2Isabelle
  imports Complex_Main "HOL-Library.Sublist" "HOL-Library.AList"
begin

section \<open>Python values and exceptions\<close>

text \<open>
  The exceptions the modelled code can raise. \<open>InvalidLiteral s\<close> is the \<open>ValueError\<close>
  that \<open>int(s)\<close> raises (CPython's message quotes the rejected string \<open>s\<close>, which is
  kept here as the payload); \<open>ValueError msg\<close> is a \<open>ValueError\<close> raised by the
  repository's own code with the message \<open>msg\<close>.
\<close>

datatype py_error =
    ValueError string
  | InvalidLiteral string
  | IndexError string
  | AttributeError string
  | KeyError string
  | TypeError string

text \<open>
  Strings are byte strings; the names handled here (environment names, agent names,
  checkpoint directory names) are taken to be ASCII. \<open>int(s)\<close> on an ASCII string:
  surrounding ASCII whitespace is dropped, one optional sign follows, then decimal
  digits, where single underscores may separate digits.
\<close>

definition is_space :: "char \<Rightarrow> bool" where
  "is_space c = (c \<in> set [CHR '' '', CHR 0x09, CHR 0x0A, CHR 0x0B, CHR 0x0C, CHR 0x0D])"

definition strip :: "string \<Rightarrow> string" where
  "strip s = rev (dropWhile is_space (rev (dropWhile is_space s)))"

definition digit_val :: "char \<Rightarrow> nat option" where
  "digit_val c =
     (let n = (of_char c :: nat) in if 48 \<le> n \<and> n \<le> 57 then Some (n - 48) else None)"

fun parse_digits :: "nat \<Rightarrow> string \<Rightarrow> nat option" where
  "parse_digits acc [] = Some acc"
| "parse_digits acc (c # cs) =
     (if c = CHR ''_'' then
        (case cs of
           [] \<Rightarrow> None
         | d # ds \<Rightarrow>
             (case digit_val d of
                None \<Rightarrow> None
              | Some v \<Rightarrow> parse_digits (10 * acc + v) ds))
      else
        (case digit_val c of
           None \<Rightarrow> None
         | Some v \<Rightarrow> parse_digits (10 * acc + v) cs))"

definition parse_unsigned :: "string \<Rightarrow> nat option" where
  "parse_unsigned body =
     (case body of
        [] \<Rightarrow> None
      | d # ds \<Rightarrow>
          (case digit_val d of
             None \<Rightarrow> None
           | Some v \<Rightarrow> parse_digits v ds))"

definition py_int :: "string \<Rightarrow> int option" where
  "py_int s =
     (case strip s of
        [] \<Rightarrow> None
      | c # cs \<Rightarrow>
          (if c = CHR ''-'' then map_option (\<lambda>n. - int n) (parse_unsigned cs)
           else if c = CHR ''+'' then map_option int (parse_unsigned cs)
           else map_option int (parse_unsigned (c # cs))))"

section \<open>Paths\<close>

type_synonym path = "string list"

definition path_str :: "path \<Rightarrow> string" where
  "path_str p = concat (map (\<lambda>c. ''/'' @ c) p)"

section \<open>Configuration trees\<close>

text \<open>
  An \<open>ml_collections.ConfigDict\<close> is an insertion-ordered mapping from field names to
  values; a nested \<open>ConfigDict\<close> is a \<open>VDict\<close>. Floats are only stored and passed on by
  the code modelled here, never computed with; they are carried as rationals.
\<close>

datatype pyval =
    VNone
  | VBool bool
  | VInt int
  | VFloat rat
  | VStr string
  | VList "pyval list"
  | VDict "(string \<times> pyval) list"

type_synonym config = "(string \<times> pyval) list"

text \<open>\<open>bool(config)\<close>: \<open>None\<close> is falsy, and so is a \<open>ConfigDict\<close> of length 0.\<close>

fun truthy :: "config option \<Rightarrow> bool" where
  "truthy None = False"
| "truthy (Some c) = (c \<noteq> [])"

text \<open>
  What \<open>get_rl_config\<close> hands to \<open>main\<close> as \<open>rl_params\<close>: a \<open>ConfigDict\<close>, or an
  exception object (line 177 returns a \<open>ValueError\<close> instance instead of raising it),
  which carries its message and whatever attributes are later set on it.
\<close>

datatype rl_params =
    ConfigDict config
  | ErrorObject string "(string \<times> pyval) list"

section \<open>Side effects\<close>

text \<open>
  The side effects of a run, in the order they happen. \<open>PrintConfig\<close> and \<open>PrintParams\<close>
  stand for the two \<open>print\<close> calls that dump a configuration under a heading;
  \<open>WandbInit\<close> stands for \<open>wandb.init\<close> with the two \<open>wandb.config.update\<close> calls that
  follow it.
\<close>

datatype effect =
    Print string
  | PrintConfig string config
  | PrintParams string rl_params
  | Mkdir path
  | WriteConfigJson path config
  | EnsureMenagerie
  | WandbInit string
  | TensorboardWriter path

type_synonym 'a io = "effect list \<times> (py_error + 'a)"

definition io_bind :: "'a io \<Rightarrow> ('a \<Rightarrow> 'b io) \<Rightarrow> 'b io" where
  "io_bind m f =
     (case m of
        (es, Inl err) \<Rightarrow> (es, Inl err)
      | (es, Inr x) \<Rightarrow> (case f x of (es', r) \<Rightarrow> (es @ es', r)))"

definition io_return :: "'a \<Rightarrow> 'a io" where
  "io_return x = ([], Inr x)"

definition io_lift :: "py_error + 'a \<Rightarrow> 'a io" where
  "io_lift r = ([], r)"

definition io_emit :: "effect list \<Rightarrow> unit io" where
  "io_emit es = (es, Inr ())"

section \<open>Checkpoint resolution (train\_jax\_ppo.py, lines 293-308)\<close>

text \<open>
  What the file system holds at a resolved path: nothing, something that is not a
  directory, or a directory with the entries that \<open>glob("*")\<close> yields, in the order it
  yields them. Each entry has its name and whether \<open>is_dir()\<close> holds for it.
\<close>

record dir_entry =
  entry_name :: string
  entry_is_dir :: bool

datatype node = Missing | File | Dir "dir_entry list"

text \<open>
  \<open>latest_ckpts.sort(key=lambda x: int(x.name))\<close>: the keys are computed for every
  element, in list order, before anything is compared; the first \<open>int\<close> that fails
  raises. The sort is stable.
\<close>

fun sort_keys :: "dir_entry list \<Rightarrow> py_error + (int \<times> dir_entry) list" where
  "sort_keys [] = Inr []"
| "sort_keys (e # es) =
     (case py_int (entry_name e) of
        None \<Rightarrow> Inl (InvalidLiteral (entry_name e))
      | Some k \<Rightarrow>
          (case sort_keys es of
             Inl err \<Rightarrow> Inl err
           | Inr ks \<Rightarrow> Inr ((k, e) # ks)))"

definition sort_by_int_name :: "dir_entry list \<Rightarrow> py_error + dir_entry list" where
  "sort_by_int_name es =
     (case sort_keys es of
        Inl err \<Rightarrow> Inl err
      | Inr ks \<Rightarrow> Inr (map snd (sort_key fst ks)))"

text \<open>\<open>xs[-1]\<close>: the last element, \<open>IndexError\<close> on the empty list.\<close>

definition last_item :: "'a list \<Rightarrow> py_error + 'a" where
  "last_item xs =
     (case xs of
        [] \<Rightarrow> Inl (IndexError ''list index out of range'')
      | _ # _ \<Rightarrow> Inr (last xs))"

definition resolve_restore_path ::
  "(path \<Rightarrow> node) \<Rightarrow> path option \<Rightarrow> path option io" where
  "resolve_restore_path fs_node load_checkpoint_path =
     (case load_checkpoint_path of
        None \<Rightarrow>
          ([Print ''No checkpoint path provided, not restoring from checkpoint''], Inr None)
      | Some ckpt_path \<Rightarrow>
          (case fs_node ckpt_path of
             Dir entries \<Rightarrow>
               (let latest_ckpts = filter entry_is_dir entries in
                case sort_by_int_name latest_ckpts of
                  Inl err \<Rightarrow> ([], Inl err)
                | Inr sorted_ckpts \<Rightarrow>
                    (case last_item sorted_ckpts of
                       Inl err \<Rightarrow> ([], Inl err)
                     | Inr latest_ckpt \<Rightarrow>
                         (let restore_checkpoint_path = ckpt_path @ [entry_name latest_ckpt] in
                          ([Print (''Restoring from: '' @ path_str restore_checkpoint_path)],
                           Inr (Some restore_checkpoint_path)))))
           | _ \<Rightarrow>
               ([Print (''Restoring from checkpoint: '' @ path_str ckpt_path)],
                Inr (Some ckpt_path))))"

section \<open>Rendering names in messages\<close>

text \<open>
  \<open>repr\<close> of a string is rendered with single quotes around it, which is what CPython
  prints for a name without quotes, backslashes or unprintable characters.
\<close>

definition quoted :: "string \<Rightarrow> string" where
  "quoted s = [CHR 0x27] @ s @ [CHR 0x27]"

fun join :: "string \<Rightarrow> string list \<Rightarrow> string" where
  "join sep [] = []"
| "join sep [x] = x"
| "join sep (x # y # ys) = x @ sep @ join sep (y # ys)"

definition list_repr :: "string list \<Rightarrow> string" where
  "list_repr xs = ''['' @ join '', '' (map quoted xs) @ '']''"

definition tuple_repr :: "string list \<Rightarrow> string" where
  "tuple_repr xs =
     (case xs of
        [x] \<Rightarrow> ''('' @ quoted x @ '',)''
      | _ \<Rightarrow> ''('' @ join '', '' (map quoted xs) @ '')'')"

definition dict_keys_repr :: "string list \<Rightarrow> string" where
  "dict_keys_repr xs = ''dict_keys('' @ list_repr xs @ '')''"

section \<open>The locomotion suite (methods/envs/locomotion/\_\_init\_\_.py)\<close>

text \<open>
  The module holds three dictionaries, \<open>_envs\<close>, \<open>_cfgs\<close> and \<open>_randomizer\<close>, kept here in
  insertion order. An environment class is known by what was registered; constructing
  an instance is left to the class, so an instance is recorded as the class together
  with the arguments of the constructor call. A registered default-config factory is
  represented by the configuration it returns.
\<close>

datatype env_class = G1Joystick string | EnvClass string

datatype randomizer = G1_domain_randomize

record mjx_env =
  constructed_by :: env_class
  config_arg :: config
  config_overrides_arg :: "config option"

record locomotion =
  envs :: "(string \<times> env_class) list"
  cfgs :: "(string \<times> config) list"
  randomizer :: "(string \<times> randomizer) list"

text \<open>
  The dictionaries as the module defines them. \<open>g1_joystick.default_config\<close> lives in
  another module (\<open>methods.envs.locomotion.g1\<close>); the configuration it returns is a
  parameter.
\<close>

definition initial_locomotion :: "config \<Rightarrow> locomotion" where
  "initial_locomotion g1_default_config =
     \<lparr>envs = [(''G1JoystickFlatTerrain'', G1Joystick ''flat_terrain''),
              (''G1JoystickRoughTerrain'', G1Joystick ''rough_terrain'')],
      cfgs = [(''G1JoystickFlatTerrain'', g1_default_config),
              (''G1JoystickRoughTerrain'', g1_default_config)],
      randomizer = [(''G1JoystickFlatTerrain'', G1_domain_randomize),
                    (''G1JoystickRoughTerrain'', G1_domain_randomize)]\<rparr>"

definition ALL_ENVS :: "locomotion \<Rightarrow> string list" where
  "ALL_ENVS reg = map fst (envs reg)"

definition register_environment ::
  "string \<Rightarrow> env_class \<Rightarrow> config \<Rightarrow> locomotion \<Rightarrow> locomotion" where
  "register_environment env_name env_cls cfg_class reg =
     reg\<lparr>envs := AList.update env_name env_cls (envs reg),
         cfgs := AList.update env_name cfg_class (cfgs reg)\<rparr>"

definition locomotion_get_default_config :: "locomotion \<Rightarrow> string \<Rightarrow> py_error + config" where
  "locomotion_get_default_config reg env_name =
     (case map_of (cfgs reg) env_name of
        None \<Rightarrow>
          Inl (ValueError (''Env '' @ quoted env_name @
                 '' not found in default configs. Available configs: '' @
                 list_repr (map fst (cfgs reg))))
      | Some cfg \<Rightarrow> Inr cfg)"

definition locomotion_load ::
  "locomotion \<Rightarrow> string \<Rightarrow> config option \<Rightarrow> config option
     \<Rightarrow> effect list \<times> (py_error + mjx_env)" where
  "locomotion_load reg env_name config config_overrides =
     ([EnsureMenagerie],
      (case map_of (envs reg) env_name of
         None \<Rightarrow>
           Inl (ValueError (''Env '' @ quoted env_name @ '' not found. Available envs: '' @
                  dict_keys_repr (map fst (cfgs reg))))
       | Some env_cls \<Rightarrow>
           (case (case config of
                    Some c \<Rightarrow> if truthy config then Inr c
                              else locomotion_get_default_config reg env_name
                  | None \<Rightarrow> locomotion_get_default_config reg env_name) of
              Inl err \<Rightarrow> Inl err
            | Inr cfg \<Rightarrow>
                Inr \<lparr>constructed_by = env_cls, config_arg = cfg,
                     config_overrides_arg = config_overrides\<rparr>)))"

definition locomotion_get_domain_randomizer ::
  "locomotion \<Rightarrow> string \<Rightarrow> effect list \<times> randomizer option" where
  "locomotion_get_domain_randomizer reg env_name =
     (case map_of (randomizer reg) env_name of
        None \<Rightarrow>
          ([Print (''Env '' @ quoted env_name @
              '' does not have a domain randomizer in the locomotion registry.'')], None)
      | Some r \<Rightarrow> ([], Some r))"

section \<open>The top-level registry (methods/envs/registry.py)\<close>

text \<open>
  \<open>registry.ALL_ENVS\<close> is computed once, when the package is imported, from the
  dictionaries as the locomotion module defines them; \<open>locomotion.ALL_ENVS\<close> inside the
  functions reads the current dictionary.
\<close>

definition registry_ALL_ENVS :: "string list" where
  "registry_ALL_ENVS = ALL_ENVS (initial_locomotion [])"

definition ALL_AGENTS :: string where
  "ALL_AGENTS = ''PPO'' @ ''FQL''"

definition registry_get_default_config :: "locomotion \<Rightarrow> string \<Rightarrow> py_error + config" where
  "registry_get_default_config reg env_name =
     (if env_name \<in> set (ALL_ENVS reg) then locomotion_get_default_config reg env_name
      else Inl (ValueError (''Env '' @ quoted env_name @ '' not found in default configs.'')))"

definition registry_load ::
  "locomotion \<Rightarrow> string \<Rightarrow> config option \<Rightarrow> config option
     \<Rightarrow> effect list \<times> (py_error + mjx_env)" where
  "registry_load reg env_name config config_overrides =
     (if env_name \<in> set (ALL_ENVS reg)
      then locomotion_load reg env_name config config_overrides
      else ([], Inl (ValueError (''Env '' @ quoted env_name @ '' not found. Available envs: '' @
                       tuple_repr registry_ALL_ENVS))))"

definition registry_get_domain_randomizer ::
  "locomotion \<Rightarrow> string \<Rightarrow> effect list \<times> randomizer option" where
  "registry_get_domain_randomizer reg env_name =
     (if env_name \<in> set (ALL_ENVS reg) then locomotion_get_domain_randomizer reg env_name
      else ([], None))"

section \<open>Command-line flags (train\_jax\_ppo.py, lines 63-167)\<close>

text \<open>
  An absl flag holder: its \<open>value\<close>, and \<open>present\<close>, which tells whether the flag was
  given on the command line. A list flag given on the command line holds the strings
  between the commas.
\<close>

record 'a flag =
  flag_value :: 'a
  present :: bool

record run_flags =
  ENV_NAME :: "string flag"
  AGENT :: "string flag"
  IMPL :: "string flag"
  SUFFIX :: "string option flag"
  USE_WANDB :: "bool flag"
  USE_TB :: "bool flag"
  LOAD_CHECKPOINT_PATH :: "string option flag"
  DOMAIN_RANDOMIZATION :: "bool flag"
  SEED :: "int flag"
  RSCOPE_ENVS :: "int option flag"
  DETERMINISTIC_RSCOPE :: "bool flag"
  NUM_VIDEOS :: "int flag"

record flags = run_flags +
  NUM_TIMESTEPS :: "int flag"
  PLAY_ONLY :: "bool flag"
  NUM_EVALS :: "int flag"
  REWARD_SCALING :: "rat flag"
  EPISODE_LENGTH :: "int flag"
  NORMALIZE_OBSERVATIONS :: "bool flag"
  ACTION_REPEAT :: "int flag"
  UNROLL_LENGTH :: "int flag"
  NUM_MINIBATCHES :: "int flag"
  NUM_UPDATES_PER_BATCH :: "int flag"
  DISCOUNTING :: "rat flag"
  LEARNING_RATE :: "rat flag"
  ENTROPY_COST :: "rat flag"
  NUM_ENVS :: "int flag"
  NUM_EVAL_ENVS :: "int flag"
  BATCH_SIZE :: "int flag"
  MAX_GRAD_NORM :: "rat flag"
  CLIPPING_EPSILON :: "rat flag"
  POLICY_HIDDEN_LAYER_SIZES :: "string list flag"
  VALUE_HIDDEN_LAYER_SIZES :: "string list flag"
  POLICY_OBS_KEY :: "string flag"
  VALUE_OBS_KEY :: "string flag"
  RUN_EVALS :: "bool flag"
  LOG_TRAINING_METRICS :: "bool flag"
  TRAINING_METRICS_STEPS :: "int flag"

section \<open>Resolving the training parameters (train\_jax\_ppo.py, lines 209-262)\<close>

text \<open>
  Assigning to a field of a \<open>ConfigDict\<close> goes through \<open>ml_collections\<close>, which may cast
  the value to the type of the field it replaces or refuse the assignment (a type
  mismatch, a new key on a locked tree). That library is not part of the repository:
  its decision is the parameter \<open>store\<close>, which receives the path of the field (the name
  of the variable first), the field's present value if it has one, and the new value,
  and returns the value to store or the exception.
\<close>

type_synonym store = "string list \<Rightarrow> pyval option \<Rightarrow> pyval \<Rightarrow> py_error + pyval"

definition configdict_set ::
  "store \<Rightarrow> string list \<Rightarrow> string \<Rightarrow> pyval \<Rightarrow> config \<Rightarrow> py_error + config" where
  "configdict_set st tree k v c =
     (case st (tree @ [k]) (map_of c k) v of
        Inl err \<Rightarrow> Inl err
      | Inr v' \<Rightarrow> Inr (AList.update k v' c))"

text \<open>
  The left-hand side of an override: \<open>rl_params.k\<close> or \<open>rl_params.network_factory.k\<close>.
  Reading \<open>rl_params.network_factory\<close> raises \<open>AttributeError\<close> when there is no such
  field, and so does setting an attribute on a value that is not a \<open>ConfigDict\<close>.
\<close>

datatype target = Top string | Nested string

fun assign :: "store \<Rightarrow> target \<Rightarrow> pyval \<Rightarrow> rl_params \<Rightarrow> py_error + rl_params" where
  "assign st (Top k) v (ConfigDict c) =
     (case configdict_set st [''rl_params''] k v c of
        Inl err \<Rightarrow> Inl err
      | Inr c' \<Rightarrow> Inr (ConfigDict c'))"
| "assign st (Top k) v (ErrorObject msg attrs) =
     Inr (ErrorObject msg (AList.update k v attrs))"
| "assign st (Nested k) v (ConfigDict c) =
     (case map_of c ''network_factory'' of
        None \<Rightarrow> Inl (AttributeError ''network_factory'')
      | Some (VDict d) \<Rightarrow>
          (case configdict_set st [''rl_params'', ''network_factory''] k v d of
             Inl err \<Rightarrow> Inl err
           | Inr d' \<Rightarrow> Inr (ConfigDict (AList.update ''network_factory'' (VDict d') c)))
      | Some _ \<Rightarrow> Inl (AttributeError k))"
| "assign st (Nested k) v (ErrorObject msg attrs) =
     (case map_of attrs ''network_factory'' of
        None \<Rightarrow> Inl (AttributeError ''network_factory'')
      | Some (VDict d) \<Rightarrow>
          (case configdict_set st [''rl_params'', ''network_factory''] k v d of
             Inl err \<Rightarrow> Inl err
           | Inr d' \<Rightarrow>
               Inr (ErrorObject msg (AList.update ''network_factory'' (VDict d') attrs)))
      | Some _ \<Rightarrow> Inl (AttributeError k))"

text \<open>\<open>list(map(int, xs))\<close>: the first string that \<open>int\<close> rejects raises.\<close>

fun int_list :: "string list \<Rightarrow> py_error + pyval list" where
  "int_list [] = Inr []"
| "int_list (x # xs) =
     (case py_int x of
        None \<Rightarrow> Inl (InvalidLiteral x)
      | Some n \<Rightarrow>
          (case int_list xs of
             Inl err \<Rightarrow> Inl err
           | Inr ns \<Rightarrow> Inr (VInt n # ns)))"

definition int_list_value :: "string list \<Rightarrow> py_error + pyval" where
  "int_list_value xs = (case int_list xs of Inl err \<Rightarrow> Inl err | Inr ns \<Rightarrow> Inr (VList ns))"

text \<open>
  One \<open>if FLAG.present: target = value\<close> statement: the name of the flag, whether it is
  present, the target and the value of the right-hand side, which is evaluated (and may
  raise) before the target is looked up.
\<close>

type_synonym override = "string \<times> bool \<times> target \<times> (py_error + pyval)"

fun apply_override :: "store \<Rightarrow> override \<Rightarrow> rl_params \<Rightarrow> py_error + rl_params" where
  "apply_override st (name, is_present, tgt, rhs) rl =
     (if is_present
      then (case rhs of Inl err \<Rightarrow> Inl err | Inr v \<Rightarrow> assign st tgt v rl)
      else Inr rl)"

fun apply_overrides :: "store \<Rightarrow> override list \<Rightarrow> rl_params \<Rightarrow> py_error + rl_params" where
  "apply_overrides st [] rl = Inr rl"
| "apply_overrides st (ov # ovs) rl =
     (case apply_override st ov rl of
        Inl err \<Rightarrow> Inl err
      | Inr rl' \<Rightarrow> apply_overrides st ovs rl')"

text \<open>The statements of lines 209-262, in order.\<close>

definition overrides :: "flags \<Rightarrow> override list" where
  "overrides fl =
     [(''num_timesteps'', present (NUM_TIMESTEPS fl), Top ''num_timesteps'',
         Inr (VInt (flag_value (NUM_TIMESTEPS fl)))),
      (''play_only'', present (PLAY_ONLY fl), Top ''num_timesteps'', Inr (VInt 0)),
      (''num_evals'', present (NUM_EVALS fl), Top ''num_evals'',
         Inr (VInt (flag_value (NUM_EVALS fl)))),
      (''reward_scaling'', present (REWARD_SCALING fl), Top ''reward_scaling'',
         Inr (VFloat (flag_value (REWARD_SCALING fl)))),
      (''episode_length'', present (EPISODE_LENGTH fl), Top ''episode_length'',
         Inr (VInt (flag_value (EPISODE_LENGTH fl)))),
      (''normalize_observations'', present (NORMALIZE_OBSERVATIONS fl),
         Top ''normalize_observations'',
         Inr (VBool (flag_value (NORMALIZE_OBSERVATIONS fl)))),
      (''action_repeat'', present (ACTION_REPEAT fl), Top ''action_repeat'',
         Inr (VInt (flag_value (ACTION_REPEAT fl)))),
      (''unroll_length'', present (UNROLL_LENGTH fl), Top ''unroll_length'',
         Inr (VInt (flag_value (UNROLL_LENGTH fl)))),
      (''num_minibatches'', present (NUM_MINIBATCHES fl), Top ''num_minibatches'',
         Inr (VInt (flag_value (NUM_MINIBATCHES fl)))),
      (''num_updates_per_batch'', present (NUM_UPDATES_PER_BATCH fl),
         Top ''num_updates_per_batch'',
         Inr (VInt (flag_value (NUM_UPDATES_PER_BATCH fl)))),
      (''discounting'', present (DISCOUNTING fl), Top ''discounting'',
         Inr (VFloat (flag_value (DISCOUNTING fl)))),
      (''learning_rate'', present (LEARNING_RATE fl), Top ''learning_rate'',
         Inr (VFloat (flag_value (LEARNING_RATE fl)))),
      (''entropy_cost'', present (ENTROPY_COST fl), Top ''entropy_cost'',
         Inr (VFloat (flag_value (ENTROPY_COST fl)))),
      (''num_envs'', present (NUM_ENVS fl), Top ''num_envs'',
         Inr (VInt (flag_value (NUM_ENVS fl)))),
      (''num_eval_envs'', present (NUM_EVAL_ENVS fl), Top ''num_eval_envs'',
         Inr (VInt (flag_value (NUM_EVAL_ENVS fl)))),
      (''batch_size'', present (BATCH_SIZE fl), Top ''batch_size'',
         Inr (VInt (flag_value (BATCH_SIZE fl)))),
      (''max_grad_norm'', present (MAX_GRAD_NORM fl), Top ''max_grad_norm'',
         Inr (VFloat (flag_value (MAX_GRAD_NORM fl)))),
      (''clipping_epsilon'', present (CLIPPING_EPSILON fl), Top ''clipping_epsilon'',
         Inr (VFloat (flag_value (CLIPPING_EPSILON fl)))),
      (''policy_hidden_layer_sizes'', present (POLICY_HIDDEN_LAYER_SIZES fl),
         Nested ''policy_hidden_layer_sizes'',
         int_list_value (flag_value (POLICY_HIDDEN_LAYER_SIZES fl))),
      (''value_hidden_layer_sizes'', present (VALUE_HIDDEN_LAYER_SIZES fl),
         Nested ''value_hidden_layer_sizes'',
         int_list_value (flag_value (VALUE_HIDDEN_LAYER_SIZES fl))),
      (''policy_obs_key'', present (POLICY_OBS_KEY fl), Nested ''policy_obs_key'',
         Inr (VStr (flag_value (POLICY_OBS_KEY fl)))),
      (''value_obs_key'', present (VALUE_OBS_KEY fl), Nested ''value_obs_key'',
         Inr (VStr (flag_value (VALUE_OBS_KEY fl)))),
      (''run_evals'', present (RUN_EVALS fl), Top ''run_evals'',
         Inr (VBool (flag_value (RUN_EVALS fl)))),
      (''log_training_metrics'', present (LOG_TRAINING_METRICS fl),
         Top ''log_training_metrics'',
         Inr (VBool (flag_value (LOG_TRAINING_METRICS fl)))),
      (''training_metrics_steps'', present (TRAINING_METRICS_STEPS fl),
         Top ''training_metrics_steps'',
         Inr (VInt (flag_value (TRAINING_METRICS_STEPS fl))))]"

definition resolve_rl_params :: "store \<Rightarrow> flags \<Rightarrow> rl_params \<Rightarrow> py_error + rl_params" where
  "resolve_rl_params st fl rl = apply_overrides st (overrides fl) rl"

text \<open>
  The flags that were supplied, and the fields a set of overrides may write: a
  top-level field is written by the present flags that target it, and the
  \<open>network_factory\<close> field by every present nested flag.
\<close>

definition supplied :: "override list \<Rightarrow> string list" where
  "supplied ovs = map fst (filter (\<lambda>ov. fst (snd ov)) ovs)"

fun top_key :: "target \<Rightarrow> string" where
  "top_key (Top k) = k"
| "top_key (Nested k) = ''network_factory''"

definition written_top :: "override list \<Rightarrow> string list" where
  "written_top ovs = map (\<lambda>ov. top_key (fst (snd (snd ov)))) (filter (\<lambda>ov. fst (snd ov)) ovs)"

fun nested_keys :: "target \<Rightarrow> string list" where
  "nested_keys (Top k) = []"
| "nested_keys (Nested k) = [k]"

definition written_nested :: "override list \<Rightarrow> string list" where
  "written_nested ovs =
     concat (map (\<lambda>ov. nested_keys (fst (snd (snd ov)))) (filter (\<lambda>ov. fst (snd ov)) ovs))"

section \<open>The training run (train\_jax\_ppo.py, \<open>get_rl_config\<close> and \<open>main\<close>)\<close>

text \<open>\<open>str.lower\<close> on ASCII.\<close>

definition lower_char :: "char \<Rightarrow> char" where
  "lower_char c =
     (let n = (of_char c :: nat) in if 65 \<le> n \<and> n \<le> 90 then char_of (n + 32) else c)"

definition lower :: "string \<Rightarrow> string" where
  "lower s = map lower_char s"

text \<open>
  The two functions of \<open>methods.configs.locomotion_params\<close> that build the parameter
  tree, called with the environment name and the implementation, are parameters.
\<close>

record params_lib =
  brax_ppo_config :: "string \<Rightarrow> string \<Rightarrow> py_error + config"
  brax_fql_config :: "string \<Rightarrow> string \<Rightarrow> py_error + config"

text \<open>
  Lines 170-179. For a known environment and an agent that is neither \<open>ppo\<close> nor \<open>fql\<close>, line
  177 \<^emph>\<open>returns\<close> the \<open>ValueError\<close> object.
\<close>

definition get_rl_config ::
  "params_lib \<Rightarrow> locomotion \<Rightarrow> string \<Rightarrow> string \<Rightarrow> string \<Rightarrow> py_error + rl_params" where
  "get_rl_config lib reg impl env_name agent_name =
     (if env_name \<in> set (map fst (envs reg)) then
        (if lower agent_name = ''ppo'' then
           (case brax_ppo_config lib env_name impl of
              Inl err \<Rightarrow> Inl err | Inr c \<Rightarrow> Inr (ConfigDict c))
         else if lower agent_name = ''fql'' then
           (case brax_fql_config lib env_name impl of
              Inl err \<Rightarrow> Inl err | Inr c \<Rightarrow> Inr (ConfigDict c))
         else Inr (ErrorObject ''Invalid agent name.'' []))
      else Inl (ValueError (''Env '' @ env_name @ '' not found in '' @
                  tuple_repr registry_ALL_ENVS @ ''.'')))"

text \<open>
  What a run reads from outside: the file system under a resolved path, the resolution
  of a path string to an absolute path, and the formatted time stamp.
\<close>

record world =
  fs_node :: "path \<Rightarrow> node"
  fs_resolve :: "string \<Rightarrow> path"
  timestamp :: string

text \<open>
  The arguments with which the trainer is finally called. \<open>randomization_fn\<close> is \<open>None\<close>
  when the key is not passed, \<open>Some None\<close> when it is passed with the value \<open>None\<close>.
\<close>

record train_call =
  training_params :: config
  randomization_fn :: "randomizer option option"
  network_factory_kwargs :: "config option"
  seed :: int
  restore_checkpoint_path :: "path option"
  save_checkpoint_path :: path
  num_eval_envs :: pyval
  environment :: mjx_env
  eval_env :: mjx_env
  with_rscope :: bool

record run_context =
  ctx_env_cfg :: config
  ctx_rl_params :: config
  ctx_env :: mjx_env
  ctx_restore :: "path option"
  ctx_ckpt_path :: path
  ctx_training_params :: config
  ctx_network_kwargs :: "config option"

definition exp_name_of :: "world \<Rightarrow> flags \<Rightarrow> string" where
  "exp_name_of w fl =
     flag_value (ENV_NAME fl) @ ''-'' @ timestamp w @
     (case flag_value (SUFFIX fl) of None \<Rightarrow> [] | Some sfx \<Rightarrow> ''-'' @ sfx)"

definition logdir_of :: "world \<Rightarrow> flags \<Rightarrow> path" where
  "logdir_of w fl = fs_resolve w ''logs'' @ [exp_name_of w fl]"

text \<open>Lines 204-207.\<close>

definition load_configs ::
  "store \<Rightarrow> params_lib \<Rightarrow> locomotion \<Rightarrow> flags \<Rightarrow> py_error + (config \<times> rl_params)" where
  "load_configs st lib reg fl =
     (case registry_get_default_config reg (flag_value (ENV_NAME fl)) of
        Inl err \<Rightarrow> Inl err
      | Inr env_cfg \<Rightarrow>
          (case configdict_set st [''env_cfg''] ''impl'' (VStr (flag_value (IMPL fl))) env_cfg of
             Inl err \<Rightarrow> Inl err
           | Inr env_cfg' \<Rightarrow>
               (case get_rl_config lib reg (flag_value (IMPL fl)) (flag_value (ENV_NAME fl))
                       (flag_value (AGENT fl)) of
                  Inl err \<Rightarrow> Inl err
                | Inr rl \<Rightarrow> Inr (env_cfg', rl))))"

text \<open>Lines 266-290: the dumps, the log directory and the logging back ends.\<close>

definition setup_logging :: "world \<Rightarrow> flags \<Rightarrow> config \<Rightarrow> rl_params \<Rightarrow> effect list" where
  "setup_logging w fl env_cfg rl =
     [PrintConfig (''Environment Config ('' @ flag_value (ENV_NAME fl) @ ''):'') env_cfg,
      PrintParams (flag_value (AGENT fl) @ '' Training Parameters:'') rl,
      Print (''Experiment name: '' @ exp_name_of w fl),
      Mkdir (logdir_of w fl),
      Print (''Logs are being stored in: '' @ path_str (logdir_of w fl))] @
     (if flag_value (USE_WANDB fl) \<and> \<not> flag_value (PLAY_ONLY fl)
      then [WandbInit (exp_name_of w fl)] else []) @
     (if flag_value (USE_TB fl) \<and> \<not> flag_value (PLAY_ONLY fl)
      then [TensorboardWriter (logdir_of w fl)] else [])"

text \<open>Lines 310-317: the checkpoint directory and the saved environment configuration.\<close>

definition setup_checkpoint_dir :: "world \<Rightarrow> flags \<Rightarrow> config \<Rightarrow> effect list" where
  "setup_checkpoint_dir w fl env_cfg =
     [Mkdir (logdir_of w fl @ [''checkpoints'']),
      Print (''Checkpoint path: '' @ path_str (logdir_of w fl @ [''checkpoints''])),
      WriteConfigJson (logdir_of w fl @ [''checkpoints'', ''config.json'']) env_cfg]"

text \<open>
  Line 319, \<open>dict(rl_params)\<close>: the items of a \<open>ConfigDict\<close>; an exception object is not
  iterable.
\<close>

definition dict_of :: "rl_params \<Rightarrow> py_error + config" where
  "dict_of rl =
     (case rl of
        ConfigDict c \<Rightarrow> Inr c
      | ErrorObject msg attrs \<Rightarrow> Inl (TypeError ''ValueError object is not iterable''))"

text \<open>
  Lines 323-331: the keyword arguments bound into the network factory, if \<open>rl_params\<close> has
  a \<open>network_factory\<close>; \<open>**\<close> needs a mapping.
\<close>

definition network_kwargs :: "config \<Rightarrow> py_error + config option" where
  "network_kwargs c =
     (case map_of c ''network_factory'' of
        None \<Rightarrow> Inr None
      | Some (VDict d) \<Rightarrow> Inr (Some d)
      | Some _ \<Rightarrow> Inl (TypeError ''argument after ** must be a mapping''))"

text \<open>Lines 204-331.\<close>

definition main_setup ::
  "store \<Rightarrow> params_lib \<Rightarrow> locomotion \<Rightarrow> world \<Rightarrow> flags \<Rightarrow> run_context io" where
  "main_setup st lib reg w fl =
     io_bind (io_lift (load_configs st lib reg fl)) (\<lambda>(env_cfg, rl0).
     io_bind (io_lift (resolve_rl_params st fl rl0)) (\<lambda>rl.
     io_bind (registry_load reg (flag_value (ENV_NAME fl)) (Some env_cfg) None) (\<lambda>env.
     io_bind (io_emit (setup_logging w fl env_cfg rl)) (\<lambda>_.
     io_bind (resolve_restore_path (fs_node w)
                (map_option (fs_resolve w) (flag_value (LOAD_CHECKPOINT_PATH fl)))) (\<lambda>restore.
     io_bind (io_emit (setup_checkpoint_dir w fl env_cfg)) (\<lambda>_.
     io_bind (io_lift (dict_of rl)) (\<lambda>params.
     io_bind (io_lift (network_kwargs params)) (\<lambda>kwargs.
     io_return
       \<lparr>ctx_env_cfg = env_cfg, ctx_rl_params = params, ctx_env = env, ctx_restore = restore,
        ctx_ckpt_path = logdir_of w fl @ [''checkpoints''],
        ctx_training_params = AList.delete ''network_factory'' params,
        ctx_network_kwargs = kwargs\<rparr>))))))))"

text \<open>Lines 333-336.\<close>

definition main_randomization :: "locomotion \<Rightarrow> flags \<Rightarrow> randomizer option option io" where
  "main_randomization reg fl =
     (if flag_value (DOMAIN_RANDOMIZATION fl)
      then (case registry_get_domain_randomizer reg (flag_value (ENV_NAME fl)) of
              (es, r) \<Rightarrow> (es, Inr (Some r)))
      else io_return None)"

text \<open>
  Lines 338-354: \<open>functools.partial\<close> is called with the remaining parameters unpacked
  next to explicit keywords, which raises \<open>TypeError\<close> if a keyword comes twice.
\<close>

definition bound_keywords :: "string list" where
  "bound_keywords = [''network_factory'', ''seed'', ''restore_checkpoint_path'',
                     ''save_checkpoint_path'', ''wrap_env_fn'', ''num_eval_envs'']"

definition bind_train_fn :: "config \<Rightarrow> py_error + config" where
  "bind_train_fn params =
     (case filter (\<lambda>k. k \<in> set bound_keywords) (map fst params) of
        [] \<Rightarrow> Inr params
      | k # _ \<Rightarrow> Inl (TypeError (''got multiple values for keyword argument '' @ quoted k)))"

text \<open>
  Lines 387-411: with \<open>--rscope_envs\<close> set and not zero, one more environment is loaded
  and \<open>rl_params.episode_length\<close> and \<open>rl_params.action_repeat\<close> are read.
\<close>

definition getattr :: "config \<Rightarrow> string \<Rightarrow> py_error + pyval" where
  "getattr c k = (case map_of c k of None \<Rightarrow> Inl (AttributeError k) | Some v \<Rightarrow> Inr v)"

definition setup_rscope :: "locomotion \<Rightarrow> flags \<Rightarrow> run_context \<Rightarrow> bool io" where
  "setup_rscope reg fl ctx =
     (if flag_value (RSCOPE_ENVS fl) \<noteq> None \<and> flag_value (RSCOPE_ENVS fl) \<noteq> Some 0 then
        io_bind (registry_load reg (flag_value (ENV_NAME fl)) (Some (ctx_env_cfg ctx)) None)
          (\<lambda>rscope_env.
        io_bind (io_lift (getattr (ctx_rl_params ctx) ''episode_length'')) (\<lambda>_.
        io_bind (io_lift (getattr (ctx_rl_params ctx) ''action_repeat'')) (\<lambda>_.
        io_return True)))
      else io_return False)"

text \<open>Lines 338-419, up to the call of the trainer.\<close>

definition main_train_call ::
  "locomotion \<Rightarrow> flags \<Rightarrow> run_context \<Rightarrow> randomizer option option \<Rightarrow> train_call io" where
  "main_train_call reg fl ctx rand =
     io_bind (io_lift (bind_train_fn (AList.delete ''num_eval_envs'' (ctx_training_params ctx))))
       (\<lambda>params.
     io_bind (registry_load reg (flag_value (ENV_NAME fl)) (Some (ctx_env_cfg ctx)) None)
       (\<lambda>eval_environment.
     io_bind (setup_rscope reg fl ctx) (\<lambda>rscope.
     io_return
       \<lparr>training_params = params,
        randomization_fn = rand,
        network_factory_kwargs = ctx_network_kwargs ctx,
        seed = flag_value (SEED fl),
        restore_checkpoint_path = ctx_restore ctx,
        save_checkpoint_path = ctx_ckpt_path ctx,
        num_eval_envs =
          (case map_of (ctx_rl_params ctx) ''num_eval_envs'' of
             None \<Rightarrow> VInt 128 | Some v \<Rightarrow> v),
        environment = ctx_env ctx,
        eval_env = eval_environment,
        with_rscope = rscope\<rparr>)))"

definition main :: "store \<Rightarrow> params_lib \<Rightarrow> locomotion \<Rightarrow> world \<Rightarrow> flags \<Rightarrow> train_call io" where
  "main st lib reg w fl =
     io_bind (main_setup st lib reg w fl) (\<lambda>ctx.
     io_bind (main_randomization reg fl) (\<lambda>rand.
     main_train_call reg fl ctx rand))"

section \<open>Evaluation rollouts (train\_jax\_ppo.py, lines 433-470)\<close>

text \<open>
  The simulation belongs to the environment and to JAX, which are not part of the
  repository. States \<open>'s\<close>, random keys \<open>'k\<close>, actions \<open>'a\<close> and array values \<open>'v\<close> are type
  parameters, and so are the operations on them: the step and the reset of the
  environment, the policy (which reads the state's observation), the splitting of a
  key in two, the \<open>i\<close>-th of the \<open>n\<close> keys that \<open>jax.random.split(key, n)\<close> yields, the
  reading of a field of \<open>state.data\<close>, and the field names that the state class and the
  data class declare.
\<close>

record ('s, 'k, 'a, 'v) simulation =
  env_step :: "'s \<Rightarrow> 'a \<Rightarrow> 's"
  env_reset :: "'k \<Rightarrow> 's"
  inference :: "'s \<Rightarrow> 'k \<Rightarrow> 'a"
  split :: "'k \<Rightarrow> 'k \<times> 'k"
  split_n :: "'k \<Rightarrow> nat \<Rightarrow> nat \<Rightarrow> 'k"
  data_field :: "'s \<Rightarrow> string \<Rightarrow> 'v"
  state_annotations :: "string list"
  data_annotations :: "string list"

text \<open>
  A recorded step is an instance of the state class whose fields hold \<open>None\<close> or a value:
  the fields of the state other than \<open>data\<close>, and the fields of its \<open>data\<close>.
\<close>

type_synonym 'v struct = "(string \<times> 'v option) list"

record 'v snapshot =
  snap_state :: "'v struct"
  snap_data :: "'v struct"

definition schema :: "string list" where
  "schema = [''qpos'', ''qvel'', ''time'', ''ctrl'', ''mocap_pos'', ''mocap_quat'',
             ''xfrc_applied'']"

definition empty_struct :: "string list \<Rightarrow> 'v struct" where
  "empty_struct annotations = map (\<lambda>k. (k, None)) annotations"

text \<open>
  Lines 434-438: every field \<open>None\<close>, then \<open>replace(data=empty_data)\<close>, which needs the state
  class to have a field \<open>data\<close>. Lines 445-453 replace the seven fields of the schema,
  which the data class must have. Both are fixed by the classes, not by the state, and
  are checked once, when JAX traces \<open>do_rollout\<close>.
\<close>

definition empty_traj :: "('s, 'k, 'a, 'v) simulation \<Rightarrow> py_error + 'v snapshot" where
  "empty_traj sim =
     (if ''data'' \<in> set (state_annotations sim)
      then Inr \<lparr>snap_state = empty_struct (removeAll ''data'' (state_annotations sim)),
                snap_data = empty_struct (data_annotations sim)\<rparr>
      else Inl (TypeError ''replace() got an unexpected keyword argument data''))"

definition snapshot_template :: "('s, 'k, 'a, 'v) simulation \<Rightarrow> py_error + 'v snapshot" where
  "snapshot_template sim =
     (case empty_traj sim of
        Inl err \<Rightarrow> Inl err
      | Inr et \<Rightarrow>
          (case filter (\<lambda>k. k \<notin> set (map fst (snap_data et))) schema of
             [] \<Rightarrow> Inr et
           | k # _ \<Rightarrow> Inl (AttributeError k)))"

definition tree_replace ::
  "('s, 'k, 'a, 'v) simulation \<Rightarrow> 'v snapshot \<Rightarrow> 's \<Rightarrow> 'v snapshot" where
  "tree_replace sim et state =
     et\<lparr>snap_data :=
          fold (\<lambda>k d. AList.update k (Some (data_field sim state k)) d) schema
            (snap_data et)\<rparr>"

text \<open>Lines 440-454, the body of the scan.\<close>

definition rollout_step ::
  "('s, 'k, 'a, 'v) simulation \<Rightarrow> 'v snapshot \<Rightarrow> 's \<times> 'k \<Rightarrow> ('s \<times> 'k) \<times> 'v snapshot" where
  "rollout_step sim et carry =
     (case carry of (state, rng) \<Rightarrow>
        (case split sim rng of (rng', act_key) \<Rightarrow>
           (let act = inference sim state act_key;
                state' = env_step sim state act
            in ((state', rng'), tree_replace sim et state'))))"

text \<open>\<open>jax.lax.scan(f, init, None, length=n)\<close>: the final carry and the outputs in order.\<close>

fun scan :: "('c \<Rightarrow> 'c \<times> 'y) \<Rightarrow> 'c \<Rightarrow> nat \<Rightarrow> 'c \<times> 'y list" where
  "scan f c 0 = (c, [])"
| "scan f c (Suc n) =
     (case f c of (c', y) \<Rightarrow> (case scan f c' n of (c'', ys) \<Rightarrow> (c'', y # ys)))"

definition do_rollout ::
  "('s, 'k, 'a, 'v) simulation \<Rightarrow> 'v snapshot \<Rightarrow> nat \<Rightarrow> 'k \<Rightarrow> 's \<Rightarrow> 'v snapshot list" where
  "do_rollout sim et episode_length rng state =
     snd (scan (rollout_step sim et) (state, rng) episode_length)"

text \<open>
  Lines 461-470: one key per video, the reset and the rollout mapped over the keys, and
  the stacked result taken apart into one list of steps per video. The number of
  videos and the episode length are natural numbers (JAX rejects negative ones).
\<close>

definition record_rollouts ::
  "('s, 'k, 'a, 'v) simulation \<Rightarrow> 'k \<Rightarrow> nat \<Rightarrow> nat \<Rightarrow> py_error + 'v snapshot list list" where
  "record_rollouts sim key num_videos episode_length =
     (case snapshot_template sim of
        Inl err \<Rightarrow> Inl err
      | Inr et \<Rightarrow>
          Inr (map (\<lambda>i. let rng = split_n sim key num_videos i
                         in do_rollout sim et episode_length rng (env_reset sim rng))
                 [0..<num_videos]))"

text \<open>
  A recorded step holds only the schema: every field of the state other than \<open>data\<close> is \<open>None\<close>,
  a field of \<open>data\<close> that is not \<open>None\<close> belongs to the schema, and every field of the schema
  holds a value.
\<close>

definition only_schema :: "'v snapshot \<Rightarrow> bool" where
  "only_schema s =
     (list_all (\<lambda>(k, x). Option.is_none x) (snap_state s) \<and>
      list_all (\<lambda>(k, x). \<not> Option.is_none x \<longrightarrow> k \<in> set schema) (snap_data s) \<and>
      list_all (\<lambda>k. case map_of (snap_data s) k of Some (Some v) \<Rightarrow> True | _ \<Rightarrow> False) schema)"

text \<open>Reading \<open>rl_params.network_factory.k\<close> in a configuration.\<close>

definition nested_field :: "config \<Rightarrow> string \<Rightarrow> pyval option" where
  "nested_field c k =
     (case map_of c ''network_factory'' of Some (VDict d) \<Rightarrow> map_of d k | _ \<Rightarrow> None)"

text \<open>The names of the four flags that write below \<open>network_factory\<close>.\<close>

definition nested_flags :: "string list" where
  "nested_flags = [''policy_hidden_layer_sizes'', ''value_hidden_layer_sizes'',
                   ''policy_obs_key'', ''value_obs_key'']"

section \<open>Concrete inputs\<close>

text \<open>
  The flags as lines 63-167 define them when the command line gives none: every flag
  holds its default and none is present. (The two list flags default to the integers
  64, 64, 64; a default is never read by lines 245-252, which look at the value only
  when the flag is present.)
\<close>

definition absent :: "'a \<Rightarrow> 'a flag" where
  "absent v = \<lparr>flag_value = v, present = False\<rparr>"

definition given :: "'a \<Rightarrow> 'a flag" where
  "given v = \<lparr>flag_value = v, present = True\<rparr>"

definition default_flags :: flags where
  "default_flags =
     \<lparr>ENV_NAME = absent ''G1JoystickFlatTerrain'',
      AGENT = absent ''ppo'',
      IMPL = absent ''jax'',
      SUFFIX = absent None,
      USE_WANDB = absent False,
      USE_TB = absent False,
      LOAD_CHECKPOINT_PATH = absent None,
      DOMAIN_RANDOMIZATION = absent False,
      SEED = absent 1,
      RSCOPE_ENVS = absent None,
      DETERMINISTIC_RSCOPE = absent True,
      NUM_VIDEOS = absent 1,
      NUM_TIMESTEPS = absent 1000000,
      PLAY_ONLY = absent False,
      NUM_EVALS = absent 5,
      REWARD_SCALING = absent (1 / 10),
      EPISODE_LENGTH = absent 1000,
      NORMALIZE_OBSERVATIONS = absent True,
      ACTION_REPEAT = absent 1,
      UNROLL_LENGTH = absent 10,
      NUM_MINIBATCHES = absent 8,
      NUM_UPDATES_PER_BATCH = absent 8,
      DISCOUNTING = absent (97 / 100),
      LEARNING_RATE = absent (5 / 10000),
      ENTROPY_COST = absent (5 / 1000),
      NUM_ENVS = absent 1024,
      NUM_EVAL_ENVS = absent 128,
      BATCH_SIZE = absent 256,
      MAX_GRAD_NORM = absent 1,
      CLIPPING_EPSILON = absent (2 / 10),
      POLICY_HIDDEN_LAYER_SIZES = absent [''64'', ''64'', ''64''],
      VALUE_HIDDEN_LAYER_SIZES = absent [''64'', ''64'', ''64''],
      POLICY_OBS_KEY = absent ''state'',
      VALUE_OBS_KEY = absent ''state'',
      RUN_EVALS = absent True,
      LOG_TRAINING_METRICS = absent False,
      TRAINING_METRICS_STEPS = absent 1000000\<rparr>"

text \<open>A store that accepts every assignment and stores the value as given.\<close>

definition plain_store :: store where
  "plain_store p old v = Inr v"

text \<open>Two small parameter trees, one with a \<open>network_factory\<close> sub-tree and one without.\<close>

definition example_params :: config where
  "example_params =
     [(''num_timesteps'', VInt 200000000),
      (''learning_rate'', VFloat (3 / 10000)),
      (''network_factory'',
         VDict [(''policy_hidden_layer_sizes'', VList [VInt 512, VInt 256, VInt 128]),
                (''value_obs_key'', VStr ''privileged_state'')])]"

definition flat_params :: config where
  "flat_params =
     [(''num_timesteps'', VInt 200000000),
      (''learning_rate'', VFloat (3 / 10000))]"

text \<open>A small environment configuration standing for \<open>g1_joystick.default_config()\<close>.\<close>

definition example_env_config :: config where
  "example_env_config = [(''ctrl_dt'', VFloat (2 / 100)), (''episode_length'', VInt 1000)]"

text \<open>
  A toy simulation on numbers: the state counts the steps, every field of the data reads
  the state, and the classes declare the fields of \<open>mjx_env.State\<close> and a few of those of
  \<open>mjx.Data\<close>.
\<close>

definition example_simulation :: "(nat, nat, nat, nat) simulation" where
  "example_simulation =
     \<lparr>env_step = (\<lambda>s a. s + 1),
      env_reset = (\<lambda>k. 0),
      inference = (\<lambda>s k. k),
      split = (\<lambda>k. (2 * k, 2 * k + 1)),
      split_n = (\<lambda>k n i. k + i),
      data_field = (\<lambda>s name. s),
      state_annotations = [''data'', ''obs'', ''reward'', ''done'', ''metrics'', ''info''],
      data_annotations = [''qpos'', ''qvel'', ''act'', ''time'', ''ctrl'', ''mocap_pos'',
                          ''mocap_quat'', ''xfrc_applied'', ''qacc'', ''contact'']\<rparr>"

text \<open>A world with an empty file system, and a parameter library with one tree.\<close>

definition example_world :: world where
  "example_world =
     \<lparr>fs_node = (\<lambda>p. Missing),
      fs_resolve = (\<lambda>s. [''home'', ''user'', s]),
      timestamp = ''20250101-120000''\<rparr>"

definition example_lib :: params_lib where
  "example_lib =
     \<lparr>brax_ppo_config = (\<lambda>env_name impl. Inr example_params),
      brax_fql_config = (\<lambda>env_name impl. Inr example_params)\<rparr>"

text \<open>
  A registry with one more environment, registered through \<open>register_environment\<close>,
  which records no randomizer for it; a run of that environment with domain
  randomization switched on; and a run with an agent name that is not known.
\<close>

definition custom_registry :: locomotion where
  "custom_registry =
     register_environment ''Custom'' (EnvClass ''Custom'') example_env_config
       (initial_locomotion example_env_config)"

definition custom_dr_flags :: flags where
  "custom_dr_flags =
     default_flags\<lparr>ENV_NAME := given ''Custom'', DOMAIN_RANDOMIZATION := given True\<rparr>"

definition unknown_agent_flags :: flags where
  "unknown_agent_flags = default_flags\<lparr>AGENT := given ''sac''\<rparr>"

text \<open>The same flags with domain randomization switched off.\<close>

definition without_randomization :: "flags \<Rightarrow> flags" where
  "without_randomization fl =
     fl\<lparr>DOMAIN_RANDOMIZATION := (DOMAIN_RANDOMIZATION fl)\<lparr>flag_value := False\<rparr>\<rparr>"

definition randomizer_notice :: "string \<Rightarrow> string" where
  "randomizer_notice env_name =
     ''Env '' @ quoted env_name @
     '' does not have a domain randomizer in the locomotion registry.''"

text \<open>The default flags with one flag given on the command line.\<close>

definition lr_flags :: flags where
  "lr_flags = default_flags\<lparr>LEARNING_RATE := given (1 / 1000)\<rparr>"

definition policy_flags :: flags where
  "policy_flags = default_flags\<lparr>POLICY_HIDDEN_LAYER_SIZES := given [''32'', ''32'']\<rparr>"

section \<open>Properties of checkpoint resolution\<close>

lemma sort_keys_Inr:
  "sort_keys es = Inr ks \<Longrightarrow>
     map snd ks = es \<and> (\<forall>p \<in> set ks. py_int (entry_name (snd p)) = Some (fst p))"
  by (induction es arbitrary: ks) (auto split: option.splits sum.splits)

lemma sort_keys_all_parse:
  "\<forall>e \<in> set es. py_int (entry_name e) \<noteq> None \<Longrightarrow> \<exists>ks. sort_keys es = Inr ks"
  by (induction es) (auto split: option.splits sum.splits)

lemma sort_keys_bad:
  "e \<in> set es \<Longrightarrow> py_int (entry_name e) = None \<Longrightarrow>
     \<exists>bad \<in> set es. py_int (entry_name bad) = None \<and>
        sort_keys es = Inl (InvalidLiteral (entry_name bad))"
  by (induction es) (auto split: option.splits sum.splits)

lemma sorted_le_last:
  "sorted xs \<Longrightarrow> (x::int) \<in> set xs \<Longrightarrow> x \<le> last xs"
  by (induction xs) auto

lemma last_sort_key_max:
  fixes ks :: "(int \<times> 'a) list"
  assumes "p \<in> set ks"
  shows "fst p \<le> fst (last (sort_key fst ks))"
proof -
  let ?s = "sort_key fst ks"
  have ne: "?s \<noteq> []" using assms by (metis empty_iff set_empty2 set_sort)
  have "sorted (map fst ?s)" by simp
  moreover have "fst p \<in> set (map fst ?s)" using assms by force
  ultimately have "fst p \<le> last (map fst ?s)" by (rule sorted_le_last)
  thus ?thesis using ne by (simp add: last_map)
qed

lemma last_sort_key_mem:
  "ks \<noteq> [] \<Longrightarrow> last (sort_key fst ks) \<in> set ks"
  by (metis last_in_set set_sort set_empty2)

lemma last_item_nonempty: "xs \<noteq> [] \<Longrightarrow> last_item xs = Inr (last xs)"
  by (cases xs) (simp_all add: last_item_def)

lemma py_int_examples:
  "py_int ''3'' = Some 3" "py_int ''10'' = Some 10" "py_int ''2'' = Some 2"
  "py_int ''abc'' = None"
  by (simp_all add: py_int_def strip_def is_space_def parse_unsigned_def digit_val_def)

text \<open>
  Claim C2. When the checkpoint path names a directory in which every immediate
  subdirectory has a name that \<open>int\<close> accepts, and there is at least one subdirectory,
  resolution succeeds and returns a subdirectory whose integer value is greatest among
  all subdirectories: the order is numeric, not lexicographic.
\<close>

theorem latest_checkpoint_is_numeric_max:
  assumes dir: "fs p = Dir entries"
    and parse: "\<forall>e \<in> set entries. entry_is_dir e \<longrightarrow> py_int (entry_name e) \<noteq> None"
    and some: "\<exists>e \<in> set entries. entry_is_dir e"
  shows "\<exists>e m. e \<in> set entries \<and> entry_is_dir e \<and> py_int (entry_name e) = Some m \<and>
           (\<forall>e' \<in> set entries. entry_is_dir e' \<longrightarrow>
              (\<exists>k. py_int (entry_name e') = Some k \<and> k \<le> m)) \<and>
           snd (resolve_restore_path fs (Some p)) = Inr (Some (p @ [entry_name e]))"
proof -
  let ?ds = "filter entry_is_dir entries"
  from parse have "\<forall>e \<in> set ?ds. py_int (entry_name e) \<noteq> None" by simp
  then obtain ks where ks: "sort_keys ?ds = Inr ks"
    using sort_keys_all_parse by blast
  from sort_keys_Inr[OF ks] have snd_ks: "map snd ks = ?ds"
    and key_ks: "\<forall>q \<in> set ks. py_int (entry_name (snd q)) = Some (fst q)" by simp_all
  from some have "?ds \<noteq> []" by (auto simp: filter_empty_conv)
  with snd_ks have ne: "ks \<noteq> []" by auto
  let ?w = "last (sort_key fst ks)"
  have w_in: "?w \<in> set ks" using ne by (rule last_sort_key_mem)
  have sne: "sort_key fst ks \<noteq> []" using ne by (metis set_empty2 set_sort)
  have "snd ?w \<in> set (map snd ks)" using w_in by force
  hence w_ds: "snd ?w \<in> set ?ds" by (simp only: snd_ks)
  have w_key: "py_int (entry_name (snd ?w)) = Some (fst ?w)" using key_ks w_in by blast
  have bound: "\<exists>k. py_int (entry_name e') = Some k \<and> k \<le> fst ?w"
    if "e' \<in> set entries" "entry_is_dir e'" for e'
  proof -
    from that have "e' \<in> set (map snd ks)" by (simp add: snd_ks)
    then obtain q where q: "q \<in> set ks" "snd q = e'" by auto
    have "fst q \<le> fst ?w" using q(1) by (rule last_sort_key_max)
    moreover have "py_int (entry_name e') = Some (fst q)" using key_ks q by blast
    ultimately show ?thesis by blast
  qed
  have res: "snd (resolve_restore_path fs (Some p)) = Inr (Some (p @ [entry_name (snd ?w)]))"
    using sne
    by (simp add: resolve_restore_path_def dir sort_by_int_name_def ks last_item_nonempty
        last_map Let_def)
  show ?thesis using w_ds w_key bound res by auto
qed

text \<open>
  The directory of the claim, with subdirectories \<open>"3"\<close>, \<open>"10"\<close>, \<open>"2"\<close>, resolves to
  \<open>"10"\<close>.
\<close>

theorem latest_checkpoint_witness:
  "snd (resolve_restore_path
          (\<lambda>_. Dir [\<lparr>entry_name = ''3'', entry_is_dir = True\<rparr>,
                     \<lparr>entry_name = ''10'', entry_is_dir = True\<rparr>,
                     \<lparr>entry_name = ''2'', entry_is_dir = True\<rparr>])
          (Some [''ckpts''])) = Inr (Some [''ckpts'', ''10''])"
  using latest_checkpoint_is_numeric_max
    [of "\<lambda>_. Dir [\<lparr>entry_name = ''3'', entry_is_dir = True\<rparr>,
                    \<lparr>entry_name = ''10'', entry_is_dir = True\<rparr>,
                    \<lparr>entry_name = ''2'', entry_is_dir = True\<rparr>]"
        "[''ckpts'']"
        "[\<lparr>entry_name = ''3'', entry_is_dir = True\<rparr>,
          \<lparr>entry_name = ''10'', entry_is_dir = True\<rparr>,
          \<lparr>entry_name = ''2'', entry_is_dir = True\<rparr>]"]
  by (auto simp: py_int_examples)

text \<open>
  Claim C3. The claim asks for an explicit error when the directory has no usable
  subdirectory. On an empty directory the code indexes the empty list:
  \<open>latest_ckpts[-1]\<close> raises \<open>IndexError\<close>.
\<close>

theorem empty_checkpoint_directory_index_error:
  "resolve_restore_path (\<lambda>_. Dir []) (Some [''ckpts''])
     = ([], Inl (IndexError ''list index out of range''))"
  by (simp add: resolve_restore_path_def sort_by_int_name_def last_item_def)

text \<open>
  Claim C4. When the checkpoint path names a directory with an immediate subdirectory
  whose name \<open>int\<close> rejects, resolution fails, before anything is printed, with the
  \<open>ValueError\<close> of \<open>int\<close>, which carries the name of a rejected subdirectory (the first
  one in listing order).
\<close>

theorem malformed_checkpoint_name_fails:
  assumes dir: "fs p = Dir entries"
    and bad: "e \<in> set entries" "entry_is_dir e" "py_int (entry_name e) = None"
  shows "\<exists>bad \<in> set entries. entry_is_dir bad \<and> py_int (entry_name bad) = None \<and>
           resolve_restore_path fs (Some p) = ([], Inl (InvalidLiteral (entry_name bad)))"
proof -
  let ?ds = "filter entry_is_dir entries"
  from bad have "e \<in> set ?ds" by simp
  from sort_keys_bad[OF this bad(3)] obtain b
    where b: "b \<in> set ?ds" "py_int (entry_name b) = None"
      "sort_keys ?ds = Inl (InvalidLiteral (entry_name b))" by blast
  have "resolve_restore_path fs (Some p) = ([], Inl (InvalidLiteral (entry_name b)))"
    by (simp add: resolve_restore_path_def dir sort_by_int_name_def b(3))
  with b show ?thesis by auto
qed

theorem malformed_checkpoint_name_witness:
  "resolve_restore_path
     (\<lambda>_. Dir [\<lparr>entry_name = ''3'', entry_is_dir = True\<rparr>,
                \<lparr>entry_name = ''abc'', entry_is_dir = True\<rparr>])
     (Some [''ckpts'']) = ([], Inl (InvalidLiteral ''abc''))"
  using malformed_checkpoint_name_fails
    [of "\<lambda>_. Dir [\<lparr>entry_name = ''3'', entry_is_dir = True\<rparr>,
                    \<lparr>entry_name = ''abc'', entry_is_dir = True\<rparr>]"
        "[''ckpts'']" _ "\<lparr>entry_name = ''abc'', entry_is_dir = True\<rparr>"]
  by (auto simp: py_int_examples)

section \<open>Properties of the parameter resolution\<close>

lemma configdict_set_frame:
  "configdict_set st t k v c = Inr c' \<Longrightarrow> k' \<noteq> k \<Longrightarrow> map_of c' k' = map_of c k'"
  by (auto simp: configdict_set_def update_conv' split: sum.splits)

lemma assign_ConfigDict:
  "assign st tgt v (ConfigDict c) = Inr rl' \<Longrightarrow> \<exists>c'. rl' = ConfigDict c'"
  by (cases tgt) (auto split: sum.splits option.splits pyval.splits)

lemma assign_frame_top:
  "assign st tgt v (ConfigDict c) = Inr (ConfigDict c') \<Longrightarrow> k \<noteq> top_key tgt \<Longrightarrow>
     map_of c' k = map_of c k"
  by (cases tgt)
     (auto simp: update_conv' dest: configdict_set_frame split: sum.splits option.splits pyval.splits)

lemma assign_frame_nested:
  assumes "assign st tgt v (ConfigDict c) = Inr (ConfigDict c')"
    and "tgt \<noteq> Top ''network_factory''"
    and "k \<notin> set (nested_keys tgt)"
  shows "nested_field c' k = nested_field c k"
proof (cases tgt)
  case (Top k0)
  with assms(2) have ne: "''network_factory'' \<noteq> k0" by auto
  from assms(1) Top have "configdict_set st [''rl_params''] k0 v c = Inr c'"
    by (auto split: sum.splits)
  from configdict_set_frame[OF this ne]
  show ?thesis by (simp add: nested_field_def)
next
  case (Nested k0)
  with assms(3) have ne: "k \<noteq> k0" by simp
  from assms(1) Nested obtain d d' where d: "map_of c ''network_factory'' = Some (VDict d)"
    and set: "configdict_set st [''rl_params'', ''network_factory''] k0 v d = Inr d'"
    and c': "c' = AList.update ''network_factory'' (VDict d') c"
    by (auto split: sum.splits option.splits pyval.splits)
  from configdict_set_frame[OF set ne]
  show ?thesis by (simp add: nested_field_def d c' update_conv')
qed

lemma apply_overrides_ConfigDict:
  "apply_overrides st ovs (ConfigDict c) = Inr rl' \<Longrightarrow> \<exists>c'. rl' = ConfigDict c'"
proof (induction ovs arbitrary: c)
  case Nil
  then show ?case by auto
next
  case (Cons ov ovs)
  obtain n p t r where ov: "ov = (n, p, t, r)" by (cases ov) auto
  from Cons.prems obtain rl1 where s1: "apply_override st ov (ConfigDict c) = Inr rl1"
    and s2: "apply_overrides st ovs rl1 = Inr rl'"
    by (auto split: sum.splits)
  from s1 obtain c1 where "rl1 = ConfigDict c1"
    by (auto simp: ov split: if_splits sum.splits dest: assign_ConfigDict)
  with s2 Cons.IH show ?case by blast
qed

lemma apply_overrides_frame_top:
  "apply_overrides st ovs (ConfigDict c) = Inr (ConfigDict c') \<Longrightarrow>
     k \<notin> set (written_top ovs) \<Longrightarrow> map_of c' k = map_of c k"
proof (induction ovs arbitrary: c)
  case Nil
  then show ?case by simp
next
  case (Cons ov ovs)
  obtain n p t r where ov: "ov = (n, p, t, r)" by (cases ov) auto
  from Cons.prems(1) obtain rl1 where s1: "apply_override st ov (ConfigDict c) = Inr rl1"
    and s2: "apply_overrides st ovs rl1 = Inr (ConfigDict c')"
    by (auto split: sum.splits)
  from s1 obtain c1 where c1: "rl1 = ConfigDict c1"
    by (auto simp: ov split: if_splits sum.splits dest: assign_ConfigDict)
  have k_rest: "k \<notin> set (written_top ovs)"
    using Cons.prems(2) by (auto simp: written_top_def)
  have step: "map_of c1 k = map_of c k"
  proof (cases p)
    case True
    with Cons.prems(2) have "k \<noteq> top_key t" by (auto simp: written_top_def ov)
    moreover from s1 True obtain v where "assign st t v (ConfigDict c) = Inr (ConfigDict c1)"
      by (auto simp: ov c1 split: sum.splits)
    ultimately show ?thesis by (rule assign_frame_top[rotated])
  next
    case False
    with s1 show ?thesis by (simp add: ov c1)
  qed
  from Cons.IH[OF s2[unfolded c1] k_rest] step show ?case by simp
qed

lemma apply_overrides_frame_nested:
  "apply_overrides st ovs (ConfigDict c) = Inr (ConfigDict c') \<Longrightarrow>
     \<forall>ov \<in> set ovs. fst (snd (snd ov)) \<noteq> Top ''network_factory'' \<Longrightarrow>
     k \<notin> set (written_nested ovs) \<Longrightarrow> nested_field c' k = nested_field c k"
proof (induction ovs arbitrary: c)
  case Nil
  then show ?case by simp
next
  case (Cons ov ovs)
  obtain n p t r where ov: "ov = (n, p, t, r)" by (cases ov) auto
  from Cons.prems(1) obtain rl1 where s1: "apply_override st ov (ConfigDict c) = Inr rl1"
    and s2: "apply_overrides st ovs rl1 = Inr (ConfigDict c')"
    by (auto split: sum.splits)
  from s1 obtain c1 where c1: "rl1 = ConfigDict c1"
    by (auto simp: ov split: if_splits sum.splits dest: assign_ConfigDict)
  have t_ok: "t \<noteq> Top ''network_factory''" using Cons.prems(2) by (simp add: ov)
  have rest_ok: "\<forall>ov \<in> set ovs. fst (snd (snd ov)) \<noteq> Top ''network_factory''"
    using Cons.prems(2) by simp
  have k_rest: "k \<notin> set (written_nested ovs)"
    using Cons.prems(3) by (auto simp: written_nested_def)
  have step: "nested_field c1 k = nested_field c k"
  proof (cases p)
    case True
    with Cons.prems(3) have "k \<notin> set (nested_keys t)" by (auto simp: written_nested_def ov)
    moreover from s1 True obtain v where "assign st t v (ConfigDict c) = Inr (ConfigDict c1)"
      by (auto simp: ov c1 split: sum.splits)
    ultimately show ?thesis using t_ok assign_frame_nested by blast
  next
    case False
    with s1 show ?thesis by (simp add: ov c1)
  qed
  from Cons.IH[OF s2[unfolded c1] rest_ok k_rest] step show ?case by simp
qed

lemma apply_overrides_none_present:
  "filter (\<lambda>ov. fst (snd ov)) ovs = [] \<Longrightarrow> apply_overrides st ovs rl = Inr rl"
  by (induction ovs) (auto split: if_splits)

lemma overrides_targets:
  "(n, p, t, r) \<in> set (overrides fl) \<Longrightarrow>
     t = (if n \<in> set [''policy_hidden_layer_sizes'', ''value_hidden_layer_sizes'',
                       ''policy_obs_key'', ''value_obs_key''] then Nested n
          else if n = ''play_only'' then Top ''num_timesteps'' else Top n)"
  by (auto simp: overrides_def)

lemma overrides_no_top_network_factory:
  "\<forall>ov \<in> set (overrides fl). fst (snd (snd ov)) \<noteq> Top ''network_factory''"
  by (simp add: overrides_def)

lemma supplied_single:
  assumes "supplied ovs = [n]"
  shows "\<exists>p t r. (n, p, t, r) \<in> set ovs \<and> written_top ovs = [top_key t] \<and>
            written_nested ovs = nested_keys t"
proof -
  from assms obtain ov where f: "filter (\<lambda>ov. fst (snd ov)) ovs = [ov]" and n: "fst ov = n"
    by (auto simp: supplied_def)
  have "ov \<in> set (filter (\<lambda>ov. fst (snd ov)) ovs)" by (simp add: f)
  hence mem: "ov \<in> set ovs" by simp
  obtain p t r where ov: "ov = (n, p, t, r)" using n by (cases ov) auto
  show ?thesis using mem f by (auto simp: ov written_top_def written_nested_def)
qed


lemma supplied_single_target:
  assumes "supplied (overrides fl) = [n]"
  shows "written_top (overrides fl) =
           [if n \<in> set nested_flags then ''network_factory''
            else if n = ''play_only'' then ''num_timesteps'' else n]"
    and "written_nested (overrides fl) = (if n \<in> set nested_flags then [n] else [])"
proof -
  from supplied_single[OF assms] obtain p t r where
    mem: "(n, p, t, r) \<in> set (overrides fl)" and
    wt: "written_top (overrides fl) = [top_key t]" and
    wn: "written_nested (overrides fl) = nested_keys t" by blast
  from overrides_targets[OF mem]
  show "written_top (overrides fl) =
           [if n \<in> set nested_flags then ''network_factory''
            else if n = ''play_only'' then ''num_timesteps'' else n]"
    and "written_nested (overrides fl) = (if n \<in> set nested_flags then [n] else [])"
    using wt wn by (auto simp: nested_flags_def split: if_splits)
qed

lemma py_int_32: "py_int ''32'' = Some 32"
  by (simp add: py_int_def strip_def is_space_def parse_unsigned_def digit_val_def)

lemma resolve_lr_example:
  "resolve_rl_params plain_store lr_flags (ConfigDict example_params) =
     Inr (ConfigDict
       [(''num_timesteps'', VInt 200000000),
        (''learning_rate'', VFloat (1 / 1000)),
        (''network_factory'',
           VDict [(''policy_hidden_layer_sizes'', VList [VInt 512, VInt 256, VInt 128]),
                  (''value_obs_key'', VStr ''privileged_state'')])])"
  by (simp add: resolve_rl_params_def overrides_def lr_flags_def default_flags_def absent_def
      given_def example_params_def plain_store_def configdict_set_def)

lemma resolve_policy_example:
  "resolve_rl_params plain_store policy_flags (ConfigDict example_params) =
     Inr (ConfigDict
       [(''num_timesteps'', VInt 200000000),
        (''learning_rate'', VFloat (3 / 10000)),
        (''network_factory'',
           VDict [(''policy_hidden_layer_sizes'', VList [VInt 32, VInt 32]),
                  (''value_obs_key'', VStr ''privileged_state'')])])"
  by (simp add: resolve_rl_params_def overrides_def policy_flags_def default_flags_def absent_def
      given_def example_params_def plain_store_def configdict_set_def int_list_value_def py_int_32)

lemma supplied_examples:
  "supplied (overrides lr_flags) = [''learning_rate'']"
  "supplied (overrides policy_flags) = [''policy_hidden_layer_sizes'']"
  "supplied (overrides default_flags) = []"
  by (simp_all add: supplied_def overrides_def lr_flags_def policy_flags_def default_flags_def
      absent_def given_def)

text \<open>
  Claim C1. Let the overrides of lines 209-262 turn a base parameter tree into a resolved
  one. If \<open>learning_rate\<close> is the only flag supplied, every other top-level field is as
  in the base. If one of the nested \<open>network_factory\<close> flags is the only flag supplied,
  every top-level field other than \<open>network_factory\<close> and every sibling field inside
  \<open>network_factory\<close> is as in the base. In general a field changes only if a supplied
  flag targets it, at the top level and below \<open>network_factory\<close>, and with no flag
  supplied the resolved tree is the base tree.
\<close>

theorem sparse_leaf_level_merge:
  assumes res: "resolve_rl_params st fl (ConfigDict base) = Inr (ConfigDict resolved)"
  shows "(supplied (overrides fl) = [''learning_rate''] \<longrightarrow>
            (\<forall>k. k \<noteq> ''learning_rate'' \<longrightarrow> map_of resolved k = map_of base k)) \<and>
         (\<forall>n \<in> set nested_flags. supplied (overrides fl) = [n] \<longrightarrow>
            (\<forall>k. k \<noteq> ''network_factory'' \<longrightarrow> map_of resolved k = map_of base k) \<and>
            (\<forall>k. k \<noteq> n \<longrightarrow> nested_field resolved k = nested_field base k)) \<and>
         (\<forall>k. k \<notin> set (written_top (overrides fl)) \<longrightarrow> map_of resolved k = map_of base k) \<and>
         (\<forall>k. k \<notin> set (written_nested (overrides fl)) \<longrightarrow>
            nested_field resolved k = nested_field base k) \<and>
         (supplied (overrides fl) = [] \<longrightarrow> resolved = base)"
proof -
  from res have run: "apply_overrides st (overrides fl) (ConfigDict base) = Inr (ConfigDict resolved)"
    by (simp add: resolve_rl_params_def)
  have top: "map_of resolved k = map_of base k" if "k \<notin> set (written_top (overrides fl))" for k
    using run that by (rule apply_overrides_frame_top)
  have nested: "nested_field resolved k = nested_field base k"
    if "k \<notin> set (written_nested (overrides fl))" for k
    using run overrides_no_top_network_factory that by (rule apply_overrides_frame_nested)
  have lr: "map_of resolved k = map_of base k"
    if "supplied (overrides fl) = [''learning_rate'']" "k \<noteq> ''learning_rate''" for k
    using top[of k] supplied_single_target(1)[OF that(1)] that(2)
    by (simp add: nested_flags_def)
  have nf: "(\<forall>k. k \<noteq> ''network_factory'' \<longrightarrow> map_of resolved k = map_of base k) \<and>
            (\<forall>k. k \<noteq> n \<longrightarrow> nested_field resolved k = nested_field base k)"
    if "n \<in> set nested_flags" "supplied (overrides fl) = [n]" for n
    using top nested supplied_single_target[OF that(2)] that(1) by simp
  have none: "resolved = base" if "supplied (overrides fl) = []"
  proof -
    from that have "filter (\<lambda>ov. fst (snd ov)) (overrides fl) = []" by (simp add: supplied_def)
    from apply_overrides_none_present[OF this, of st "ConfigDict base"] run show ?thesis by simp
  qed
  show ?thesis using top nested lr nf none by blast
qed

text \<open>
  The theorem at the example tree: with only \<open>learning_rate\<close> given, and with only
  \<open>policy_hidden_layer_sizes\<close> given, where the sibling \<open>value_obs_key\<close> survives.
\<close>

theorem sparse_leaf_level_merge_witness:
  "(\<exists>resolved.
      resolve_rl_params plain_store lr_flags (ConfigDict example_params)
        = Inr (ConfigDict resolved) \<and>
      supplied (overrides lr_flags) = [''learning_rate''] \<and>
      map_of resolved ''learning_rate'' = Some (VFloat (1 / 1000)) \<and>
      map_of resolved ''num_timesteps'' = map_of example_params ''num_timesteps'' \<and>
      map_of resolved ''network_factory'' = map_of example_params ''network_factory'') \<and>
   (\<exists>resolved.
      resolve_rl_params plain_store policy_flags (ConfigDict example_params)
        = Inr (ConfigDict resolved) \<and>
      supplied (overrides policy_flags) = [''policy_hidden_layer_sizes''] \<and>
      nested_field resolved ''policy_hidden_layer_sizes'' = Some (VList [VInt 32, VInt 32]) \<and>
      nested_field resolved ''value_obs_key'' = Some (VStr ''privileged_state'') \<and>
      map_of resolved ''learning_rate'' = map_of example_params ''learning_rate'')"
proof -
  let ?r1 = "[(''num_timesteps'', VInt 200000000),
              (''learning_rate'', VFloat (1 / 1000)),
              (''network_factory'',
                 VDict [(''policy_hidden_layer_sizes'', VList [VInt 512, VInt 256, VInt 128]),
                        (''value_obs_key'', VStr ''privileged_state'')])]"
  let ?r2 = "[(''num_timesteps'', VInt 200000000),
              (''learning_rate'', VFloat (3 / 10000)),
              (''network_factory'',
                 VDict [(''policy_hidden_layer_sizes'', VList [VInt 32, VInt 32]),
                        (''value_obs_key'', VStr ''privileged_state'')])]"
  from sparse_leaf_level_merge [OF resolve_lr_example] supplied_examples(1)
  have lr: "\<forall>k. k \<noteq> ''learning_rate'' \<longrightarrow> map_of ?r1 k = map_of example_params k"
    by blast
  have in_nested: "''policy_hidden_layer_sizes'' \<in> set nested_flags"
    by (simp add: nested_flags_def)
  from sparse_leaf_level_merge [OF resolve_policy_example] supplied_examples(2) in_nested
  have pol: "(\<forall>k. k \<noteq> ''network_factory'' \<longrightarrow> map_of ?r2 k = map_of example_params k) \<and>
             (\<forall>k. k \<noteq> ''policy_hidden_layer_sizes'' \<longrightarrow>
                nested_field ?r2 k = nested_field example_params k)"
    by blast
  have a1: "map_of ?r1 ''num_timesteps'' = map_of example_params ''num_timesteps''"
    by (rule lr[rule_format]) simp
  have a2: "map_of ?r1 ''network_factory'' = map_of example_params ''network_factory''"
    by (rule lr[rule_format]) simp
  have b1: "nested_field ?r2 ''value_obs_key'' = nested_field example_params ''value_obs_key''"
    by (rule pol[THEN conjunct2, rule_format]) simp
  have b2: "map_of ?r2 ''learning_rate'' = map_of example_params ''learning_rate''"
    by (rule pol[THEN conjunct1, rule_format]) simp
  have b1': "nested_field ?r2 ''value_obs_key'' = Some (VStr ''privileged_state'')"
    using b1 by (simp add: nested_field_def example_params_def)
  have first: "\<exists>resolved.
      resolve_rl_params plain_store lr_flags (ConfigDict example_params)
        = Inr (ConfigDict resolved) \<and>
      supplied (overrides lr_flags) = [''learning_rate''] \<and>
      map_of resolved ''learning_rate'' = Some (VFloat (1 / 1000)) \<and>
      map_of resolved ''num_timesteps'' = map_of example_params ''num_timesteps'' \<and>
      map_of resolved ''network_factory'' = map_of example_params ''network_factory''"
    using resolve_lr_example supplied_examples(1) a1 a2 by (intro exI[of _ ?r1]) simp
  have second: "\<exists>resolved.
      resolve_rl_params plain_store policy_flags (ConfigDict example_params)
        = Inr (ConfigDict resolved) \<and>
      supplied (overrides policy_flags) = [''policy_hidden_layer_sizes''] \<and>
      nested_field resolved ''policy_hidden_layer_sizes'' = Some (VList [VInt 32, VInt 32]) \<and>
      nested_field resolved ''value_obs_key'' = Some (VStr ''privileged_state'') \<and>
      map_of resolved ''learning_rate'' = map_of example_params ''learning_rate''"
    using resolve_policy_example supplied_examples(2) b1' b2
    by (intro exI[of _ ?r2]) (simp add: nested_field_def)
  from first second show ?thesis by (rule conjI)
qed

text \<open>
  Claim C7. The claim has nested overrides dropped when the base tree has no
  \<open>network_factory\<close>. The code reads \<open>rl_params.network_factory\<close> without a guard: with
  \<open>policy_hidden_layer_sizes\<close> given and a base tree without the sub-tree, resolution
  raises \<open>AttributeError\<close> and yields no configuration at all.
\<close>

theorem nested_override_without_network_factory_raises:
  "resolve_rl_params plain_store policy_flags (ConfigDict flat_params)
     = Inl (AttributeError ''network_factory'')"
  by (simp add: resolve_rl_params_def overrides_def policy_flags_def default_flags_def absent_def
      given_def flat_params_def int_list_value_def py_int_32)

section \<open>Properties of the registry\<close>

text \<open>
  Claim C6. The claim has the error of \<open>get_default_config\<close> list every registered
  name. At the top-level registry an unregistered name is rejected by line 30, whose
  message is the fixed text around the requested name: it contains none of the
  registered names (the message of \<open>load\<close>, line 40, does list them).
\<close>

theorem get_default_config_message_omits_names:
  "registry_get_default_config (initial_locomotion example_env_config) ''DoesNotExist''
     = Inl (ValueError ''Env 'DoesNotExist' not found in default configs.'')
   \<and> ALL_ENVS (initial_locomotion example_env_config)
        = [''G1JoystickFlatTerrain'', ''G1JoystickRoughTerrain'']
   \<and> \<not> sublist ''G1JoystickFlatTerrain'' ''Env 'DoesNotExist' not found in default configs.''"
proof (intro conjI)
  show "registry_get_default_config (initial_locomotion example_env_config) ''DoesNotExist''
     = Inl (ValueError ''Env 'DoesNotExist' not found in default configs.'')"
    by (simp add: registry_get_default_config_def ALL_ENVS_def initial_locomotion_def quoted_def)
  show "ALL_ENVS (initial_locomotion example_env_config)
        = [''G1JoystickFlatTerrain'', ''G1JoystickRoughTerrain'']"
    by (simp add: ALL_ENVS_def initial_locomotion_def)
  show "\<not> sublist ''G1JoystickFlatTerrain'' ''Env 'DoesNotExist' not found in default configs.''"
    by code_simp
qed

lemma locomotion_load_falsy:
  "\<not> truthy config \<Longrightarrow>
     locomotion_load reg env_name config ov = locomotion_load reg env_name None ov"
  by (cases config) (auto simp: locomotion_load_def split: option.splits)

text \<open>
  Claim C10. A configuration that is absent or falsy (the empty \<open>ConfigDict\<close>) makes no
  difference to \<open>load\<close>, in the suite and in the top-level registry: the result is that
  of a call without a configuration, and for a registered name the environment is
  constructed from \<open>get_default_config\<close> of that name.
\<close>

theorem load_falsy_config_uses_default:
  assumes "\<not> truthy config"
  shows "locomotion_load reg env_name config ov = locomotion_load reg env_name None ov \<and>
         registry_load reg env_name config ov = registry_load reg env_name None ov \<and>
         (\<forall>env_cls cfg.
            map_of (envs reg) env_name = Some env_cls \<longrightarrow>
            locomotion_get_default_config reg env_name = Inr cfg \<longrightarrow>
            registry_load reg env_name config ov
              = ([EnsureMenagerie],
                 Inr \<lparr>constructed_by = env_cls, config_arg = cfg,
                      config_overrides_arg = ov\<rparr>))"
proof -
  have l: "locomotion_load reg env_name config ov = locomotion_load reg env_name None ov"
    using assms by (rule locomotion_load_falsy)
  have r: "registry_load reg env_name config ov = registry_load reg env_name None ov"
    by (simp add: registry_load_def l)
  have d: "registry_load reg env_name config ov
              = ([EnsureMenagerie],
                 Inr \<lparr>constructed_by = env_cls, config_arg = cfg, config_overrides_arg = ov\<rparr>)"
    if "map_of (envs reg) env_name = Some env_cls"
      "locomotion_get_default_config reg env_name = Inr cfg" for env_cls cfg
  proof -
    from that(1) have "env_name \<in> set (ALL_ENVS reg)"
      by (auto simp: ALL_ENVS_def dest: map_of_SomeD intro: rev_image_eqI)
    thus ?thesis using that unfolding r by (simp add: registry_load_def locomotion_load_def)
  qed
  show ?thesis using l r d by blast
qed

theorem load_falsy_config_witness:
  "\<not> truthy (Some []) \<and>
   registry_load (initial_locomotion example_env_config) ''G1JoystickFlatTerrain'' (Some []) None
     = ([EnsureMenagerie],
        Inr \<lparr>constructed_by = G1Joystick ''flat_terrain'', config_arg = example_env_config,
             config_overrides_arg = None\<rparr>)"
proof -
  have f: "\<not> truthy (Some [])" by simp
  have e: "map_of (envs (initial_locomotion example_env_config)) ''G1JoystickFlatTerrain''
             = Some (G1Joystick ''flat_terrain'')"
    by (simp add: initial_locomotion_def)
  have c: "locomotion_get_default_config (initial_locomotion example_env_config)
             ''G1JoystickFlatTerrain'' = Inr example_env_config"
    by (simp add: locomotion_get_default_config_def initial_locomotion_def)
  from load_falsy_config_uses_default [OF f, of "initial_locomotion example_env_config"
      "''G1JoystickFlatTerrain''" None] e c
  have "registry_load (initial_locomotion example_env_config) ''G1JoystickFlatTerrain''
          (Some []) None
     = ([EnsureMenagerie],
        Inr \<lparr>constructed_by = G1Joystick ''flat_terrain'', config_arg = example_env_config,
             config_overrides_arg = None\<rparr>)" by blast
  with f show ?thesis by (rule conjI)
qed

section \<open>Properties of the training run\<close>

lemma without_randomization_parts:
  "overrides (without_randomization fl) = overrides fl"
  "exp_name_of w (without_randomization fl) = exp_name_of w fl"
  "flag_value (ENV_NAME (without_randomization fl)) = flag_value (ENV_NAME fl)"
  "flag_value (IMPL (without_randomization fl)) = flag_value (IMPL fl)"
  "flag_value (AGENT (without_randomization fl)) = flag_value (AGENT fl)"
  "flag_value (SEED (without_randomization fl)) = flag_value (SEED fl)"
  "flag_value (RSCOPE_ENVS (without_randomization fl)) = flag_value (RSCOPE_ENVS fl)"
  "flag_value (USE_WANDB (without_randomization fl)) = flag_value (USE_WANDB fl)"
  "flag_value (USE_TB (without_randomization fl)) = flag_value (USE_TB fl)"
  "flag_value (PLAY_ONLY (without_randomization fl)) = flag_value (PLAY_ONLY fl)"
  "flag_value (LOAD_CHECKPOINT_PATH (without_randomization fl))
     = flag_value (LOAD_CHECKPOINT_PATH fl)"
  by (simp_all add: without_randomization_def overrides_def exp_name_of_def)

lemma without_randomization_stages:
  "load_configs st lib reg (without_randomization fl) = load_configs st lib reg fl"
  "resolve_rl_params st (without_randomization fl) rl = resolve_rl_params st fl rl"
  "logdir_of w (without_randomization fl) = logdir_of w fl"
  "setup_logging w (without_randomization fl) env_cfg rl = setup_logging w fl env_cfg rl"
  "setup_checkpoint_dir w (without_randomization fl) env_cfg = setup_checkpoint_dir w fl env_cfg"
  "setup_rscope reg (without_randomization fl) ctx = setup_rscope reg fl ctx"
  by (simp_all add: load_configs_def resolve_rl_params_def logdir_of_def setup_logging_def
      setup_checkpoint_dir_def setup_rscope_def without_randomization_parts
      cong: sum.case_cong)

lemma main_setup_ignores_randomization:
  "main_setup st lib reg w (without_randomization fl) = main_setup st lib reg w fl"
  by (simp add: main_setup_def without_randomization_parts without_randomization_stages)

lemma main_train_call_ignores_randomization:
  "main_train_call reg (without_randomization fl) ctx r = main_train_call reg fl ctx r"
  by (simp add: main_train_call_def without_randomization_parts without_randomization_stages)

lemma main_train_call_rand:
  "main_train_call reg fl ctx r =
     (case main_train_call reg fl ctx None of
        (es, Inl err) \<Rightarrow> (es, Inl err)
      | (es, Inr call) \<Rightarrow> (es, Inr (call\<lparr>randomization_fn := r\<rparr>)))"
  by (auto simp: main_train_call_def io_bind_def io_return_def io_lift_def
      split: prod.splits sum.splits)

lemma main_randomization_off:
  "main_randomization reg (without_randomization fl) = ([], Inr None)"
  by (simp add: main_randomization_def without_randomization_def io_return_def)

lemma main_randomization_missing:
  assumes "flag_value (DOMAIN_RANDOMIZATION fl)"
    and "flag_value (ENV_NAME fl) \<in> set (ALL_ENVS reg)"
    and "map_of (randomizer reg) (flag_value (ENV_NAME fl)) = None"
  shows "main_randomization reg fl
           = ([Print (randomizer_notice (flag_value (ENV_NAME fl)))], Inr (Some None))"
  using assms
  by (simp add: main_randomization_def registry_get_domain_randomizer_def
      locomotion_get_domain_randomizer_def randomizer_notice_def)

lemma custom_run_without_randomization:
  "snd (main plain_store example_lib custom_registry example_world
          (without_randomization custom_dr_flags)) =
      Inr \<lparr>training_params =
             [(''num_timesteps'', VInt 200000000), (''learning_rate'', VFloat (3 / 10000))],
           randomization_fn = None,
           network_factory_kwargs =
             Some [(''policy_hidden_layer_sizes'', VList [VInt 512, VInt 256, VInt 128]),
                   (''value_obs_key'', VStr ''privileged_state'')],
           seed = 1, restore_checkpoint_path = None,
           save_checkpoint_path =
             [''home'', ''user'', ''logs'', ''Custom-20250101-120000'', ''checkpoints''],
           num_eval_envs = VInt 128,
           environment =
             \<lparr>constructed_by = EnvClass ''Custom'',
              config_arg = [(''ctrl_dt'', VFloat (2 / 100)), (''episode_length'', VInt 1000),
                            (''impl'', VStr ''jax'')],
              config_overrides_arg = None\<rparr>,
           eval_env =
             \<lparr>constructed_by = EnvClass ''Custom'',
              config_arg = [(''ctrl_dt'', VFloat (2 / 100)), (''episode_length'', VInt 1000),
                            (''impl'', VStr ''jax'')],
              config_overrides_arg = None\<rparr>,
           with_rscope = False\<rparr>"
  by code_simp

text \<open>
  Claim C8. Take a run with domain randomization enabled for a registered environment
  that has no randomizer. \<open>get_domain_randomizer\<close> prints the notice and returns \<open>None\<close>.
  If the same run without domain randomization reaches the call of the trainer, so
  does this one, with the same arguments and \<open>randomization_fn = None\<close>, and the notice
  is among its output; and whenever this run fails, the run without domain
  randomization fails with the same error: enabling it adds no failure.
\<close>

theorem missing_randomizer_is_not_fatal:
  assumes dr: "flag_value (DOMAIN_RANDOMIZATION fl)"
    and known: "flag_value (ENV_NAME fl) \<in> set (ALL_ENVS reg)"
    and none: "map_of (randomizer reg) (flag_value (ENV_NAME fl)) = None"
  shows "registry_get_domain_randomizer reg (flag_value (ENV_NAME fl))
           = ([Print (randomizer_notice (flag_value (ENV_NAME fl)))], None) \<and>
         (\<forall>call. snd (main st lib reg w (without_randomization fl)) = Inr call \<longrightarrow>
            snd (main st lib reg w fl) = Inr (call\<lparr>randomization_fn := Some None\<rparr>) \<and>
            Print (randomizer_notice (flag_value (ENV_NAME fl)))
              \<in> set (fst (main st lib reg w fl))) \<and>
         (\<forall>err. snd (main st lib reg w fl) = Inl err \<longrightarrow>
            snd (main st lib reg w (without_randomization fl)) = Inl err)"
proof -
  let ?n = "Print (randomizer_notice (flag_value (ENV_NAME fl)))"
  have g: "registry_get_domain_randomizer reg (flag_value (ENV_NAME fl)) = ([?n], None)"
    using known none
    by (simp add: registry_get_domain_randomizer_def locomotion_get_domain_randomizer_def
        randomizer_notice_def)
  have on: "main st lib reg w fl =
      io_bind (main_setup st lib reg w fl) (\<lambda>ctx.
        io_bind ([?n], Inr (Some None)) (\<lambda>rand. main_train_call reg fl ctx rand))"
    by (simp add: main_def main_randomization_missing[OF dr known none])
  have off: "main st lib reg w (without_randomization fl) =
      io_bind (main_setup st lib reg w fl) (\<lambda>ctx.
        io_bind ([], Inr None) (\<lambda>rand. main_train_call reg fl ctx rand))"
    by (simp add: main_def main_randomization_off main_setup_ignores_randomization
        main_train_call_ignores_randomization)
  obtain es s where s: "main_setup st lib reg w fl = (es, s)" by (cases "main_setup st lib reg w fl")
  show ?thesis
  proof (cases s)
    case (Inl err)
    then show ?thesis using g by (simp add: on off s io_bind_def)
  next
    case (Inr ctx)
    obtain es' t where t: "main_train_call reg fl ctx None = (es', t)"
      by (cases "main_train_call reg fl ctx None")
    have t': "main_train_call reg fl ctx (Some None) =
        (case t of Inl err \<Rightarrow> (es', Inl err)
         | Inr call \<Rightarrow> (es', Inr (call\<lparr>randomization_fn := Some None\<rparr>)))"
      by (subst main_train_call_rand) (simp add: t split: sum.splits)
    show ?thesis using g
      by (cases t) (simp_all add: on off s Inr io_bind_def t t')
  qed
qed

theorem missing_randomizer_witness:
  "flag_value (DOMAIN_RANDOMIZATION custom_dr_flags) \<and>
   flag_value (ENV_NAME custom_dr_flags) \<in> set (ALL_ENVS custom_registry) \<and>
   map_of (randomizer custom_registry) (flag_value (ENV_NAME custom_dr_flags)) = None \<and>
   (\<exists>call. snd (main plain_store example_lib custom_registry example_world custom_dr_flags)
              = Inr call \<and>
           randomization_fn call = Some None \<and>
           Print (randomizer_notice ''Custom'')
             \<in> set (fst (main plain_store example_lib custom_registry example_world
                            custom_dr_flags)))"
proof -
  have name: "flag_value (ENV_NAME custom_dr_flags) = ''Custom''"
    by (simp add: custom_dr_flags_def given_def)
  have dr: "flag_value (DOMAIN_RANDOMIZATION custom_dr_flags)"
    by (simp add: custom_dr_flags_def given_def)
  have known: "flag_value (ENV_NAME custom_dr_flags) \<in> set (ALL_ENVS custom_registry)"
    by (simp add: name custom_registry_def register_environment_def initial_locomotion_def
        ALL_ENVS_def)
  have none: "map_of (randomizer custom_registry) (flag_value (ENV_NAME custom_dr_flags)) = None"
    by (simp add: name custom_registry_def register_environment_def initial_locomotion_def)
  from missing_randomizer_is_not_fatal [OF dr known none, of plain_store example_lib
      example_world] custom_run_without_randomization
  have "\<exists>call. snd (main plain_store example_lib custom_registry example_world custom_dr_flags)
              = Inr call \<and>
           randomization_fn call = Some None \<and>
           Print (randomizer_notice ''Custom'')
             \<in> set (fst (main plain_store example_lib custom_registry example_world
                            custom_dr_flags))"
    by (simp add: name)
  with dr known none show ?thesis by blast
qed

lemma unknown_environment_fails_first:
  assumes "flag_value (ENV_NAME fl) \<notin> set (ALL_ENVS reg)"
  shows "main st lib reg w fl =
           ([], Inl (ValueError (''Env '' @ quoted (flag_value (ENV_NAME fl)) @
                                 '' not found in default configs.'')))"
  using assms
  by (simp add: main_def main_setup_def load_configs_def registry_get_default_config_def
      io_bind_def io_lift_def)

text \<open>
  Claim C5. An unknown environment name does end the run before any side effect (the
  lemma above). An unknown agent name does not: \<open>get_rl_config\<close> returns the \<open>ValueError\<close>
  object instead of raising it, and the run goes on to create the log directory and
  the checkpoint directory and to write \<open>config.json\<close> before \<open>dict(rl_params)\<close> fails with
  a \<open>TypeError\<close>.
\<close>

theorem unknown_agent_creates_log_directory:
  "get_rl_config example_lib (initial_locomotion example_env_config) ''jax''
     ''G1JoystickFlatTerrain'' ''sac'' = Inr (ErrorObject ''Invalid agent name.'' []) \<and>
   snd (main plain_store example_lib (initial_locomotion example_env_config) example_world
          unknown_agent_flags) = Inl (TypeError ''ValueError object is not iterable'') \<and>
   Mkdir [''home'', ''user'', ''logs'', ''G1JoystickFlatTerrain-20250101-120000'']
     \<in> set (fst (main plain_store example_lib (initial_locomotion example_env_config)
                    example_world unknown_agent_flags)) \<and>
   WriteConfigJson [''home'', ''user'', ''logs'', ''G1JoystickFlatTerrain-20250101-120000'',
                    ''checkpoints'', ''config.json'']
       [(''ctrl_dt'', VFloat (2 / 100)), (''episode_length'', VInt 1000),
        (''impl'', VStr ''jax'')]
     \<in> set (fst (main plain_store example_lib (initial_locomotion example_env_config)
                    example_world unknown_agent_flags))"
  by code_simp

section \<open>Properties of the evaluation rollouts\<close>

lemma scan_length: "length (snd (scan f c n)) = n"
proof (induction n arbitrary: c)
  case 0
  then show ?case by simp
next
  case (Suc n)
  obtain c1 y1 where f: "f c = (c1, y1)" by (cases "f c")
  obtain c2 ys where r: "scan f c1 n = (c2, ys)" by (cases "scan f c1 n")
  from Suc.IH[of c1] show ?case by (simp add: f r)
qed

lemma scan_outputs: "y \<in> set (snd (scan f c n)) \<Longrightarrow> \<exists>c'. y = snd (f c')"
proof (induction n arbitrary: c)
  case 0
  then show ?case by simp
next
  case (Suc n)
  obtain c1 y1 where f: "f c = (c1, y1)" by (cases "f c")
  obtain c2 ys where r: "scan f c1 n = (c2, ys)" by (cases "scan f c1 n")
  from Suc.prems have "y = y1 \<or> y \<in> set ys" by (simp add: f r)
  then show ?case
  proof
    assume "y = y1"
    with f show ?thesis by (metis snd_conv)
  next
    assume "y \<in> set ys"
    with r Suc.IH[of c1] show ?thesis by simp
  qed
qed

lemma rollout_step_output:
  "\<exists>state'. snd (rollout_step sim et carry) = tree_replace sim et state'"
  by (auto simp: rollout_step_def Let_def split: prod.splits)

lemma fold_update_lookup:
  "map_of (fold (\<lambda>k d. AList.update k (Some (g k)) d) ks d) k =
     (if k \<in> set ks then Some (Some (g k)) else map_of d k)"
  by (induction ks arbitrary: d) (auto simp: update_conv')

lemma update_entries:
  "(k', x) \<in> set (AList.update k v al) \<Longrightarrow> (k', x) \<in> set al \<or> (k' = k \<and> x = v)"
  by (induction al) (auto split: if_splits)

lemma fold_update_entries:
  "(k', x) \<in> set (fold (\<lambda>k d. AList.update k (Some (g k)) d) ks d) \<Longrightarrow>
     (k', x) \<in> set d \<or> (k' \<in> set ks \<and> x \<noteq> None)"
proof (induction ks arbitrary: d)
  case Nil
  then show ?case by simp
next
  case (Cons k ks)
  from Cons.prems Cons.IH[of "AList.update k (Some (g k)) d"]
  have "(k', x) \<in> set (AList.update k (Some (g k)) d) \<or> (k' \<in> set ks \<and> x \<noteq> None)"
    by simp
  then show ?case by (auto dest: update_entries)
qed

lemma snapshot_template_ok:
  assumes "''data'' \<in> set (state_annotations sim)"
    and "set schema \<subseteq> set (data_annotations sim)"
  shows "snapshot_template sim =
           Inr \<lparr>snap_state = empty_struct (removeAll ''data'' (state_annotations sim)),
                snap_data = empty_struct (data_annotations sim)\<rparr>"
proof -
  have "filter (\<lambda>k. k \<notin> set (data_annotations sim)) schema = []"
    using assms(2) by (auto simp: filter_empty_conv)
  thus ?thesis using assms(1)
    by (simp add: snapshot_template_def empty_traj_def empty_struct_def comp_def)
qed

lemma tree_replace_only_schema:
  "only_schema (tree_replace sim \<lparr>snap_state = empty_struct xs, snap_data = empty_struct ys\<rparr> state)"
proof -
  let ?s = "tree_replace sim \<lparr>snap_state = empty_struct xs, snap_data = empty_struct ys\<rparr> state"
  have a: "list_all (\<lambda>(k, x). Option.is_none x) (snap_state ?s)"
    by (simp add: tree_replace_def empty_struct_def list_all_iff)
  have d: "snap_data ?s =
             fold (\<lambda>k d. AList.update k (Some (data_field sim state k)) d) schema (empty_struct ys)"
    by (simp add: tree_replace_def)
  have b: "list_all (\<lambda>(k, x). \<not> Option.is_none x \<longrightarrow> k \<in> set schema) (snap_data ?s)"
    unfolding d list_all_iff
  proof (intro ballI, clarify)
    fix k x
    assume mem: "(k, x) \<in> set (fold (\<lambda>k d. AList.update k (Some (data_field sim state k)) d)
                                 schema (empty_struct ys))"
      and nn: "\<not> Option.is_none x"
    from fold_update_entries[OF mem]
    show "k \<in> set schema" using nn by (auto simp: empty_struct_def Option.is_none_def)
  qed
  have c: "list_all (\<lambda>k. case map_of (snap_data ?s) k of Some (Some v) \<Rightarrow> True | _ \<Rightarrow> False)
             schema"
    unfolding d by (simp add: list_all_iff fold_update_lookup)
  show ?thesis unfolding only_schema_def using a b c by blast
qed

text \<open>
  Claim C9. For every number of videos \<open>V\<close> and every episode length \<open>L\<close>, when the state
  class has a \<open>data\<close> field and the data class has the seven fields of the schema, the
  recorder returns exactly \<open>V\<close> trajectories, each a list of exactly \<open>L\<close> recorded steps, and
  every recorded step holds values in the seven schema fields of \<open>data\<close> and \<open>None\<close> in every
  other field of the data and of the state.
\<close>

theorem rollouts_have_fixed_shape_and_schema:
  assumes "''data'' \<in> set (state_annotations sim)"
    and "set schema \<subseteq> set (data_annotations sim)"
  shows "\<exists>trajectories.
           record_rollouts sim key num_videos episode_length = Inr trajectories \<and>
           length trajectories = num_videos \<and>
           (\<forall>traj \<in> set trajectories.
              length traj = episode_length \<and> (\<forall>step \<in> set traj. only_schema step))"
proof -
  let ?et = "\<lparr>snap_state = empty_struct (removeAll ''data'' (state_annotations sim)),
               snap_data = empty_struct (data_annotations sim)\<rparr> :: 'd snapshot"
  let ?trajs = "map (\<lambda>i. let rng = split_n sim key num_videos i
                         in do_rollout sim ?et episode_length rng (env_reset sim rng))
                 [0..<num_videos]"
  have res: "record_rollouts sim key num_videos episode_length = Inr ?trajs"
    by (simp add: record_rollouts_def snapshot_template_ok[OF assms])
  have len: "length ?trajs = num_videos" by simp
  have each: "length traj = episode_length \<and> (\<forall>step \<in> set traj. only_schema step)"
    if "traj \<in> set ?trajs" for traj
  proof -
    from that obtain rng state where t: "traj = do_rollout sim ?et episode_length rng state"
      by (auto simp: Let_def)
    have l: "length traj = episode_length" by (simp add: t do_rollout_def scan_length)
    have "only_schema step" if "step \<in> set traj" for step
    proof -
      from that obtain c' where "step = snd (rollout_step sim ?et c')"
        unfolding t do_rollout_def by (blast dest: scan_outputs)
      then obtain state' where "step = tree_replace sim ?et state'"
        using rollout_step_output by metis
      thus ?thesis by (simp add: tree_replace_only_schema)
    qed
    with l show ?thesis by blast
  qed
  from res len each show ?thesis by blast
qed

text \<open>The theorem at three videos of fifty steps.\<close>

theorem rollouts_witness:
  "''data'' \<in> set (state_annotations example_simulation) \<and>
   set schema \<subseteq> set (data_annotations example_simulation) \<and>
   (\<exists>trajectories.
      record_rollouts example_simulation 1 3 50 = Inr trajectories \<and>
      length trajectories = 3 \<and>
      (\<forall>traj \<in> set trajectories. length traj = 50 \<and> (\<forall>step \<in> set traj. only_schema step)))"
proof -
  have a: "''data'' \<in> set (state_annotations example_simulation)"
    by (simp add: example_simulation_def)
  have b: "set schema \<subseteq> set (data_annotations example_simulation)"
    by (simp add: example_simulation_def schema_def)
  from rollouts_have_fixed_shape_and_schema [OF a b, of 1 3 50] a b
  show ?thesis by blast
qed


end
